theory Spec2Isabelle
  imports Main
begin

section \<open>Identifiers, timestamps and opaque payloads\<close>

text \<open>
  The controller of \<^verbatim>\<open>packages/core/src/server.ts\<close> is embedded method by method.
  Identifiers (account, session, organization and vault ids, uuids, revision tokens)
  are strings; a \<^verbatim>\<open>Date\<close> is its \<^verbatim>\<open>getTime()\<close> value in milliseconds; byte
  arrays are lists of numbers; encrypted blobs, key parameters and provider data are
  strings the server never looks into.
\<close>

type_synonym ident = string
type_synonym time = int
type_synonym bytes = "nat list"
type_synonym opaque = string
type_synonym AuthType = string

datatype ErrorCode =
    INVALID_SESSION
  | SESSION_EXPIRED
  | INVALID_REQUEST
  | MAX_REQUEST_AGE_EXCEEDED
  | NOT_FOUND
  | AUTHENTICATION_REQUIRED
  | AUTHENTICATION_FAILED
  | INVALID_CREDENTIALS
  | ACCOUNT_EXISTS
  | OUTDATED_REVISION
  | INSUFFICIENT_PERMISSIONS
  | PROVISIONING_NOT_ALLOWED
  | PROVISIONING_QUOTA_EXCEEDED
  | BAD_REQUEST
  | NOT_SUPPORTED
  | SERVER_ERROR

section \<open>JavaScript array operations\<close>

text \<open>\<^verbatim>\<open>Array.prototype.findIndex\<close>: the first index whose element satisfies the
  predicate, \<open>-1\<close> when there is none.\<close>

fun findIndex :: "('a \<Rightarrow> bool) \<Rightarrow> 'a list \<Rightarrow> int" where
  "findIndex p [] = - 1"
| "findIndex p (x # xs) =
     (if p x then 0 else (let i = findIndex p xs in if i < 0 then - 1 else i + 1))"

definition indexOf :: "'a list \<Rightarrow> 'a \<Rightarrow> int" where
  "indexOf xs x = findIndex (\<lambda>y. y = x) xs"

text \<open>\<^verbatim>\<open>Array.prototype.splice(start, deleteCount)\<close>, the array it leaves behind: a
  negative \<open>start\<close> counts from the end and is clamped at \<open>0\<close>, a \<open>start\<close> beyond the
  end is clamped at the length, and no more elements are deleted than there are.\<close>

definition splice_array :: "int \<Rightarrow> int \<Rightarrow> 'a list \<Rightarrow> 'a list" where
  "splice_array start deleteCount xs =
     (let len = int (length xs);
          actualStart = (if start < 0 then max (len + start) 0 else min start len);
          actualDeleteCount = min (max deleteCount 0) (len - actualStart)
      in take (nat actualStart) xs @ drop (nat (actualStart + actualDeleteCount)) xs)"

text \<open>\<^verbatim>\<open>xs[i]\<close> for a number \<open>i\<close>: \<^verbatim>\<open>undefined\<close> outside the array.\<close>

definition at_index :: "'a list \<Rightarrow> int \<Rightarrow> 'a option" where
  "at_index xs i = (if 0 \<le> i \<and> i < int (length xs) then Some (xs ! nat i) else None)"

section \<open>Data model\<close>

record DeviceInfo =
  device_id :: ident
  device_locale :: string

datatype AccountStatus = Unregistered | AccountActive | AccountSuspended

datatype AuthPurpose =
  Signup | Login | Recover | GetLegacyData | AccessKeyStore | TestAuthenticator

datatype AuthenticatorStatus = Registering | AuthenticatorActive

datatype AuthRequestStatus = Pending | Verified

record Authenticator =
  authenticator_id :: ident
  authenticator_type :: AuthType
  authenticator_status :: AuthenticatorStatus
  purposes :: "AuthPurpose list"
  authenticator_lastUsed :: "time option"

record AuthRequest =
  request_id :: ident
  request_token :: string
  request_type :: AuthType
  request_purpose :: AuthPurpose
  request_authenticatorId :: ident
  request_status :: AuthRequestStatus
  request_tries :: nat
  request_verified :: "time option"
  request_device :: "DeviceInfo option"

text \<open>A pending SRP handshake. What the handshake holds besides its id (the verifier
  and the server's ephemeral values) is only read by the SRP primitive.\<close>

record SRPSession =
  srp_id :: ident
  srp_state :: opaque

record Session =
  session_id :: ident
  session_account :: ident
  session_created :: time
  session_updated :: time
  session_lastUsed :: time
  session_expires :: "time option"
  session_key :: "bytes option"
  session_device :: "DeviceInfo option"
  session_lastLocation :: "opaque option"

record SessionInfo =
  info_id :: ident
  info_account :: ident
  info_created :: time
  info_updated :: time
  info_lastUsed :: time
  info_expires :: "time option"
  info_device :: "DeviceInfo option"
  info_lastLocation :: "opaque option"

text \<open>Modelled from the spec: the getter \<^verbatim>\<open>Session.info\<close> (session.ts is not among the
  sources). The Auth record keeps for each active session its ``denormalized info, not
  secret key'': every field of the session but the signing key.\<close>

definition info :: "Session \<Rightarrow> SessionInfo" where
  "info s =
     \<lparr> info_id = session_id s, info_account = session_account s,
       info_created = session_created s, info_updated = session_updated s,
       info_lastUsed = session_lastUsed s, info_expires = session_expires s,
       info_device = session_device s, info_lastLocation = session_lastLocation s \<rparr>"

text \<open>An invite noted on the invitee's Auth record.\<close>

record AuthInvite =
  authinvite_id :: ident
  authinvite_orgId :: ident
  authinvite_orgName :: string

record Auth =
  auth_id :: ident
  auth_email :: string
  auth_account :: "ident option"
  accountStatus :: AccountStatus
  authenticators :: "Authenticator list"
  mfaOrder :: "ident list"
  sessions :: "SessionInfo list"
  trustedDevices :: "DeviceInfo list"
  srpSessions :: "SRPSession list"
  authRequests :: "AuthRequest list"
  auth_invites :: "AuthInvite list"

record OrgInfo =
  orginfo_id :: ident
  orginfo_name :: string
  orginfo_revision :: "string option"

record MainVault =
  mainvault_id :: ident
  mainvault_revision :: "string option"

record Account =
  account_id :: ident
  account_email :: string
  account_name :: string
  account_revision :: string
  account_publicKey :: opaque
  account_keyParams :: opaque
  account_encryptionParams :: opaque
  account_encryptedData :: opaque
  account_orgs :: "OrgInfo list"
  account_mainVault :: MainVault
  account_updated :: time

datatype OrgRole = Owner | Admin | Member | Suspended

record OrgMember =
  member_id :: ident
  member_email :: string
  member_name :: string
  member_role :: OrgRole

record Invite =
  invite_id :: ident
  invite_email :: string

record VaultInfo =
  vaultinfo_id :: ident
  vaultinfo_name :: string
  vaultinfo_revision :: "string option"

record Org =
  org_id :: ident
  org_owner :: ident
  org_revision :: string
  org_name :: string
  org_publicKey :: opaque
  org_keyParams :: opaque
  org_encryptionParams :: opaque
  org_encryptedData :: opaque
  org_signingParams :: opaque
  org_accessors :: opaque
  org_members :: "OrgMember list"
  org_groups :: "string list"
  org_vaults :: "VaultInfo list"
  org_invites :: "Invite list"
  org_minMemberUpdated :: time
  org_updated :: time

record Vault =
  vault_id :: ident
  vault_name :: string
  vault_org :: "OrgInfo option"
  vault_owner :: ident
  vault_revision :: string
  vault_keyParams :: opaque
  vault_encryptionParams :: opaque
  vault_accessors :: opaque
  vault_encryptedData :: opaque
  vault_updated :: time

section \<open>Storage and request context\<close>

text \<open>The storage facade: one table per kind of entity, keyed by id;
  \<^verbatim>\<open>storage.get\<close> fails with \<open>NOT_FOUND\<close> where the table has no entry.\<close>

record Storage =
  stored_sessions :: "ident \<rightharpoonup> Session"
  stored_accounts :: "ident \<rightharpoonup> Account"
  stored_auths :: "ident \<rightharpoonup> Auth"
  stored_orgs :: "ident \<rightharpoonup> Org"
  stored_vaults :: "ident \<rightharpoonup> Vault"

record Context =
  ctx_session :: "Session option"
  ctx_account :: "Account option"
  ctx_auth :: "Auth option"
  ctx_device :: "DeviceInfo option"

definition save_session :: "Session \<Rightarrow> Storage \<Rightarrow> Storage" where
  "save_session s st = st\<lparr>stored_sessions := (stored_sessions st)(session_id s \<mapsto> s)\<rparr>"

definition delete_session :: "Session \<Rightarrow> Storage \<Rightarrow> Storage" where
  "delete_session s st = st\<lparr>stored_sessions := (stored_sessions st)(session_id s := None)\<rparr>"

definition save_account :: "Account \<Rightarrow> Storage \<Rightarrow> Storage" where
  "save_account a st = st\<lparr>stored_accounts := (stored_accounts st)(account_id a \<mapsto> a)\<rparr>"

definition save_org :: "Org \<Rightarrow> Storage \<Rightarrow> Storage" where
  "save_org a st = st\<lparr>stored_orgs := (stored_orgs st)(org_id a \<mapsto> a)\<rparr>"

definition save_vault :: "Vault \<Rightarrow> Storage \<Rightarrow> Storage" where
  "save_vault a st = st\<lparr>stored_vaults := (stored_vaults st)(vault_id a \<mapsto> a)\<rparr>"

definition save_auth :: "Auth \<Rightarrow> Storage \<Rightarrow> Storage" where
  "save_auth a st = st\<lparr>stored_auths := (stored_auths st)(auth_id a \<mapsto> a)\<rparr>"

definition delete_auth :: "ident \<Rightarrow> Storage \<Rightarrow> Storage" where
  "delete_auth i st = st\<lparr>stored_auths := (stored_auths st)(i := None)\<rparr>"

text \<open>\<^verbatim>\<open>_requireAuth\<close>: the context must hold a session, an account and an Auth record.\<close>

definition requireAuth :: "Context \<Rightarrow> ErrorCode + (Account \<times> Session \<times> Auth)" where
  "requireAuth ctx =
     (case ctx_session ctx of
        None \<Rightarrow> Inl INVALID_SESSION
      | Some session \<Rightarrow>
          (case ctx_account ctx of
             None \<Rightarrow> Inl INVALID_SESSION
           | Some account \<Rightarrow>
               (case ctx_auth ctx of
                  None \<Rightarrow> Inl INVALID_SESSION
                | Some auth \<Rightarrow> Inr (account, session, auth))))"

section \<open>Authenticator management\<close>

text \<open>\<^verbatim>\<open>deleteAuthenticator(id)\<close>. The Auth record of the context is changed in place
  and then saved, so the outcome carries the context as well as the storage.\<close>

definition deleteAuthenticator ::
  "ident \<Rightarrow> Context \<Rightarrow> Storage \<Rightarrow> (ErrorCode + unit) \<times> Context \<times> Storage" where
  "deleteAuthenticator i ctx st =
     (case requireAuth ctx of
        Inl e \<Rightarrow> (Inl e, ctx, st)
      | Inr (account, session, auth) \<Rightarrow>
          if length (authenticators auth) \<le> 1 then (Inl BAD_REQUEST, ctx, st)
          else
            (let index = findIndex (\<lambda>a. authenticator_id a = i) (authenticators auth)
             in if index < 0 then (Inl NOT_FOUND, ctx, st)
                else
                  (let auth' = auth\<lparr>authenticators := splice_array index 1 (authenticators auth)\<rparr>
                   in (Inr (), ctx\<lparr>ctx_auth := Some auth'\<rparr>, save_auth auth' st))))"

section \<open>Collaborators of the controller\<close>

record ServerConfig =
  clientUrl :: string
  reportErrors :: string
  maxRequestAge :: int
  verifyEmailOnSignup :: bool
  defaultAuthTypes :: "AuthType list"

datatype ProvisioningStatus = Unprovisioned | ProvisioningActive | Frozen

record AccountProvisioning =
  accprov_status :: ProvisioningStatus
  accprov_quota_orgs :: int

record OrgProvisioning =
  orgprov_orgId :: ident
  orgprov_status :: ProvisioningStatus
  orgprov_quota_members :: int
  orgprov_quota_groups :: int
  orgprov_quota_vaults :: int

record Provisioning =
  prov_account :: AccountProvisioning
  prov_orgs :: "OrgProvisioning list"

text \<open>An authenticator provider (\<^verbatim>\<open>AuthServer\<close>). A provider is known to the
  controller by the types it supports and by what its operations return or throw;
  the data they return is opaque.\<close>

record AuthServer =
  supportsType :: "AuthType \<Rightarrow> bool"
  initAuthenticator :: "Authenticator \<Rightarrow> Auth \<Rightarrow> opaque option \<Rightarrow> ErrorCode + opaque"
  activateAuthenticator :: "Authenticator \<Rightarrow> opaque option \<Rightarrow> ErrorCode + opaque"
  initAuthRequest :: "Authenticator \<Rightarrow> AuthRequest \<Rightarrow> opaque option \<Rightarrow> ErrorCode + opaque"
  verifyAuthRequest :: "Authenticator \<Rightarrow> AuthRequest \<Rightarrow> opaque option \<Rightarrow> ErrorCode + unit"

text \<open>The calls a controller method makes to providers, in the order it makes them:
  each names the authenticator (and the request) it was made for.\<close>

datatype ProviderCall =
    CallInitAuthenticator ident
  | CallActivateAuthenticator ident
  | CallInitAuthRequest ident ident
  | CallVerifyAuthRequest ident ident

record RequestAuthentication =
  reqauth_session :: ident
  reqauth_time :: time
  reqauth_signature :: opaque

record Request =
  req_method :: string
  req_auth :: "RequestAuthentication option"
  req_location :: "opaque option"

text \<open>
  The server object: its configuration, its providers and its provisioner, followed by
  the functions the controller imports from modules that are not among the sources and
  that are therefore parameters of the model: the hash \<^verbatim>\<open>getIdFromEmail\<close> (util.ts),
  \<^verbatim>\<open>Session.verify\<close> (session.ts), the SRP server's \<^verbatim>\<open>setA\<close>, which yields the proof
  \<open>M1\<close> it expects and the shared key \<open>K\<close> or throws (srp.ts), the state of a freshly
  constructed \<^verbatim>\<open>new Session()\<close>, and the vault permissions \<^verbatim>\<open>Org.canRead\<close> and
  \<^verbatim>\<open>Org.canWrite\<close> (org.ts).
\<close>

record Server =
  config :: ServerConfig
  authServers :: "AuthServer list"
  getProvisioning :: "Auth \<Rightarrow> Provisioning"
  getIdFromEmail :: "string \<Rightarrow> ident"
  verify :: "Session \<Rightarrow> Request \<Rightarrow> bool"
  setA :: "SRPSession \<Rightarrow> bytes \<Rightarrow> ErrorCode + (bytes \<times> bytes)"
  new_Session :: Session
  canRead :: "Org \<Rightarrow> Vault \<Rightarrow> Account \<Rightarrow> bool"
  canWrite :: "Org \<Rightarrow> Vault \<Rightarrow> Account \<Rightarrow> bool"

text \<open>Modelled from the spec: \<^verbatim>\<open>equalCT\<close> (encoding.ts is not among the sources), the
  ``constant-time comparison''; the model keeps its result, equality.\<close>

definition equalCT :: "'a \<Rightarrow> 'a \<Rightarrow> bool" where
  "equalCT a b = (a = b)"

text \<open>Modelled from the spec: \<^verbatim>\<open>new Auth(email)\<close> followed by \<^verbatim>\<open>init()\<close> (auth.ts is not
  among the sources), the record ``created lazily on first reference'': an
  unregistered record for the email under its hashed id, with nothing registered.\<close>

definition new_Auth :: "Server \<Rightarrow> string \<Rightarrow> Auth" where
  "new_Auth srv email =
     \<lparr> auth_id = getIdFromEmail srv email, auth_email = email, auth_account = None,
       accountStatus = Unregistered, authenticators = [], mfaOrder = [], sessions = [],
       trustedDevices = [], srpSessions = [], authRequests = [], auth_invites = [] \<rparr>"

text \<open>\<^verbatim>\<open>_getAuth(email)\<close>: the record under the hashed id; failing that, a record of an
  earlier version stored under the plain email, which is re-keyed (\<^verbatim>\<open>init\<close>, save, delete
  of the old entry); failing that, a fresh record that is not saved.\<close>

definition getAuth :: "Server \<Rightarrow> string \<Rightarrow> Storage \<Rightarrow> Auth \<times> Storage" where
  "getAuth srv email st =
     (case stored_auths st (getIdFromEmail srv email) of
        Some auth \<Rightarrow> (auth, st)
      | None \<Rightarrow>
          (case stored_auths st email of
             Some legacy \<Rightarrow>
               (let auth = legacy\<lparr>auth_id := getIdFromEmail srv (auth_email legacy)\<rparr>
                in (auth, delete_auth (auth_email auth) (save_auth auth st)))
           | None \<Rightarrow> (new_Auth srv email, st)))"

section \<open>Session authenticator\<close>

text \<open>\<^verbatim>\<open>authenticate(req, ctx)\<close>, at the time \<open>now\<close> of the server's clock.\<close>

definition authenticate ::
  "Server \<Rightarrow> time \<Rightarrow> Request \<Rightarrow> Context \<Rightarrow> Storage \<Rightarrow> (ErrorCode + unit) \<times> Context \<times> Storage" where
  "authenticate srv now req ctx st =
     (case req_auth req of
        None \<Rightarrow> (Inr (), ctx, st)
      | Some h \<Rightarrow>
          (case stored_sessions st (reqauth_session h) of
             None \<Rightarrow> (Inl INVALID_SESSION, ctx, st)
           | Some session \<Rightarrow>
               if (case session_expires session of None \<Rightarrow> False | Some e \<Rightarrow> e < now)
               then (Inl SESSION_EXPIRED, ctx, st)
               else if \<not> verify srv session req then (Inl INVALID_REQUEST, ctx, st)
               else
                 (let age = now - reqauth_time h
                  in if age > maxRequestAge (config srv)
                     then (Inl MAX_REQUEST_AGE_EXCEEDED, ctx, st)
                     else
                       (case stored_accounts st (session_account session) of
                          None \<Rightarrow> (Inl NOT_FOUND, ctx, st)
                        | Some account \<Rightarrow>
                            (let (auth, st1) = getAuth srv (account_email account) st;
                                 session' = session
                                   \<lparr> session_lastUsed := now, session_device := ctx_device ctx,
                                     session_lastLocation := req_location req,
                                     session_updated := now \<rparr>;
                                 i = findIndex (\<lambda>s. info_id s = session_id session') (sessions auth);
                                 auth' =
                                   (if i \<noteq> - 1
                                    then auth\<lparr>sessions := (sessions auth)[nat i := info session']\<rparr>
                                    else auth\<lparr>sessions := sessions auth @ [info session']\<rparr>)
                             in (Inr (),
                                 ctx\<lparr> ctx_session := Some session', ctx_account := Some account,
                                      ctx_auth := Some auth' \<rparr>,
                                 save_auth auth' (save_account account (save_session session' st1))))))))"

section \<open>Credential handshake\<close>

record CreateSessionParams =
  cs_account :: ident
  cs_srpId :: ident
  cs_A :: bytes
  cs_M :: bytes
  cs_addTrustedDevice :: bool

text \<open>\<^verbatim>\<open>createSession\<close>, with the fresh \<open>uuid\<close> and the time \<open>now\<close> it draws. The session
  it returns is the object it saved, after \<^verbatim>\<open>delete session.key\<close>.\<close>

definition createSession ::
  "Server \<Rightarrow> ident \<Rightarrow> time \<Rightarrow> CreateSessionParams \<Rightarrow> Context \<Rightarrow> Storage
     \<Rightarrow> (ErrorCode + Session) \<times> Storage" where
  "createSession srv uuid now p ctx st =
     (case stored_accounts st (cs_account p) of
        None \<Rightarrow> (Inl NOT_FOUND, st)
      | Some acc \<Rightarrow>
          (let (auth, st1) = getAuth srv (account_email acc) st
           in case find (\<lambda>s. srp_id s = cs_srpId p) (srpSessions auth) of
                None \<Rightarrow> (Inl INVALID_CREDENTIALS, st1)
              | Some srpState \<Rightarrow>
                  (case setA srv srpState (cs_A p) of
                     Inl e \<Rightarrow> (Inl e, st1)
                   | Inr (M1, K) \<Rightarrow>
                       if \<not> equalCT (cs_M p) M1 then (Inl INVALID_CREDENTIALS, st1)
                       else
                         (let session = (new_Session srv)
                                \<lparr> session_id := uuid, session_created := now,
                                  session_account := cs_account p,
                                  session_device := ctx_device ctx, session_key := Some K \<rparr>;
                              auth1 = auth\<lparr>sessions := sessions auth @ [info session]\<rparr>;
                              auth2 = auth1
                                \<lparr>srpSessions :=
                                   filter (\<lambda>s. srp_id s \<noteq> srp_id srpState) (srpSessions auth1)\<rparr>;
                              st2 = save_account acc (save_session session st1);
                              auth3 =
                                (case ctx_device ctx of
                                   None \<Rightarrow> auth2
                                 | Some device \<Rightarrow>
                                     if \<not> list_ex (\<lambda>d. equalCT (device_id d) (device_id device))
                                            (trustedDevices auth2)
                                        \<and> cs_addTrustedDevice p
                                     then auth2\<lparr>trustedDevices := trustedDevices auth2 @ [device]\<rparr>
                                     else auth2)
                          in (Inr (session\<lparr>session_key := None\<rparr>), save_auth auth3 st2)))))"

text \<open>\<^verbatim>\<open>revokeSession(id)\<close>.\<close>

definition revokeSession ::
  "ident \<Rightarrow> Context \<Rightarrow> Storage \<Rightarrow> (ErrorCode + unit) \<times> Context \<times> Storage" where
  "revokeSession i ctx st =
     (case requireAuth ctx of
        Inl e \<Rightarrow> (Inl e, ctx, st)
      | Inr (account, _, auth) \<Rightarrow>
          (case stored_sessions st i of
             None \<Rightarrow> (Inl NOT_FOUND, ctx, st)
           | Some session \<Rightarrow>
               if session_account session \<noteq> account_id account
               then (Inl INSUFFICIENT_PERMISSIONS, ctx, st)
               else
                 (let k = findIndex (\<lambda>s. info_id s = i) (sessions auth);
                      auth' = auth\<lparr>sessions := splice_array k 1 (sessions auth)\<rparr>
                  in (Inr (), ctx\<lparr>ctx_auth := Some auth'\<rparr>,
                      save_auth auth' (delete_session session st)))))"

section \<open>Auth requests\<close>

text \<open>\<^verbatim>\<open>_getAuthServer(type)\<close>: the first provider that supports the type; the caller
  throws \<open>NOT_SUPPORTED\<close> when there is none.\<close>

definition getAuthServer :: "Server \<Rightarrow> AuthType \<Rightarrow> AuthServer option" where
  "getAuthServer srv type = find (\<lambda>prov. supportsType prov type) (authServers srv)"

text \<open>\<^verbatim>\<open>_createAdHocAuthenticator\<close>: an active authenticator of a default type, which
  the provider initialises. The outcome comes with the provider calls made.\<close>

definition createAdHocAuthenticator ::
  "Server \<Rightarrow> Auth \<Rightarrow> AuthPurpose list \<Rightarrow> AuthType
     \<Rightarrow> (ErrorCode + Authenticator) \<times> ProviderCall list" where
  "createAdHocAuthenticator srv auth ps type =
     (case getAuthServer srv type of
        None \<Rightarrow> (Inl NOT_SUPPORTED, [])
      | Some authServer \<Rightarrow>
          (let authenticator =
                 \<lparr> authenticator_id = ''ad_hoc_'' @ auth_email auth @ ''_'' @ type,
                   authenticator_type = type, authenticator_status = AuthenticatorActive,
                   purposes = ps, authenticator_lastUsed = None \<rparr>;
               calls = [CallInitAuthenticator (authenticator_id authenticator)]
           in case initAuthenticator authServer authenticator auth None of
                Inl e \<Rightarrow> (Inl e, calls)
              | Inr _ \<Rightarrow> (Inr authenticator, calls)))"

text \<open>The ad hoc authenticators of the default types, built in the order of the
  configuration. (The source starts them together and awaits them all; taking them in
  order only fixes which of several failures is the one reported.)\<close>

fun adHocAuthenticators ::
  "Server \<Rightarrow> Auth \<Rightarrow> AuthPurpose list \<Rightarrow> AuthType list
     \<Rightarrow> (ErrorCode + Authenticator list) \<times> ProviderCall list" where
  "adHocAuthenticators srv auth ps [] = (Inr [], [])"
| "adHocAuthenticators srv auth ps (type # types) =
     (case createAdHocAuthenticator srv auth ps type of
        (Inl e, calls) \<Rightarrow> (Inl e, calls)
      | (Inr a, calls) \<Rightarrow>
          (case adHocAuthenticators srv auth ps types of
             (Inl e, calls') \<Rightarrow> (Inl e, calls @ calls')
           | (Inr as, calls') \<Rightarrow> (Inr (a # as), calls @ calls')))"

text \<open>\<^verbatim>\<open>_getAuthenticators(auth)\<close>: the registered authenticators followed by the ad
  hoc ones.\<close>

definition getAuthenticators ::
  "Server \<Rightarrow> Auth \<Rightarrow> (ErrorCode + Authenticator list) \<times> ProviderCall list" where
  "getAuthenticators srv auth =
     (let ps = [Signup, Login, Recover, GetLegacyData]
      in case adHocAuthenticators srv auth ps (defaultAuthTypes (config srv)) of
           (Inl e, calls) \<Rightarrow> (Inl e, calls)
         | (Inr adHoc, calls) \<Rightarrow> (Inr (authenticators auth @ adHoc), calls))"

record StartAuthRequestParams =
  sar_email :: string
  sar_authenticatorId :: "ident option"
  sar_authenticatorIndex :: "int option"
  sar_type :: "AuthType option"
  sar_supportedTypes :: "AuthType list option"
  sar_purpose :: AuthPurpose
  sar_data :: "opaque option"

record StartAuthRequestResponse =
  resp_id :: ident
  resp_data :: opaque
  resp_token :: string
  resp_type :: AuthType
  resp_authenticatorId :: ident
  resp_requestStatus :: AuthRequestStatus
  resp_deviceTrusted :: bool
  resp_accountStatus :: "AccountStatus option"
  resp_provisioning :: "AccountProvisioning option"

text \<open>The filter of \<^verbatim>\<open>startAuthRequest\<close>: an optional parameter that is left out
  (\<^verbatim>\<open>undefined\<close>) does not restrict the choice.\<close>

definition selectable :: "StartAuthRequestParams \<Rightarrow> Authenticator \<Rightarrow> bool" where
  "selectable p m \<longleftrightarrow>
     (case sar_authenticatorId p of None \<Rightarrow> True | Some i \<Rightarrow> authenticator_id m = i) \<and>
     (case sar_type p of None \<Rightarrow> True | Some t \<Rightarrow> authenticator_type m = t) \<and>
     (case sar_supportedTypes p of
        None \<Rightarrow> True | Some ts \<Rightarrow> authenticator_type m \<in> set ts) \<and>
     (sar_purpose p = TestAuthenticator \<or> sar_purpose p \<in> set (purposes m)) \<and>
     authenticator_status m = AuthenticatorActive"

text \<open>\<^verbatim>\<open>availableAuthenticators\<close>: the authenticators that pass the filter, sorted
  (stably) by the position of their id in the stored preference order, an id that is not
  in the order counting as \<open>-1\<close>. Each authenticator comes with its position in the list
  \<^verbatim>\<open>_getAuthenticators\<close> returned, which tells a registered authenticator (an object of
  the Auth record, which a later assignment changes in the record) from an ad hoc one.\<close>

definition availableAuthenticators ::
  "StartAuthRequestParams \<Rightarrow> Auth \<Rightarrow> Authenticator list \<Rightarrow> (nat \<times> Authenticator) list" where
  "availableAuthenticators p auth ms =
     sort_key (\<lambda>(k, m). indexOf (mfaOrder auth) (authenticator_id m))
       (filter (\<lambda>(k, m). selectable p m) (enumerate 0 ms))"

text \<open>Modelled from the spec: \<^verbatim>\<open>new AuthRequest({...})\<close> followed by \<^verbatim>\<open>init()\<close> (auth.ts
  is not among the sources): a request starts \<open>Pending\<close> with no failed tries, and
  \<^verbatim>\<open>init\<close> draws its id and its token.\<close>

definition new_AuthRequest ::
  "ident \<Rightarrow> string \<Rightarrow> ident \<Rightarrow> AuthType \<Rightarrow> AuthPurpose \<Rightarrow> DeviceInfo option \<Rightarrow> AuthRequest" where
  "new_AuthRequest rid token authenticatorId type purpose device =
     \<lparr> request_id = rid, request_token = token, request_type = type,
       request_purpose = purpose, request_authenticatorId = authenticatorId,
       request_status = Pending, request_tries = 0, request_verified = None,
       request_device = device \<rparr>"

text \<open>\<^verbatim>\<open>startAuthRequest\<close>, with the id and token the new request draws and the time
  \<open>now\<close>. The outcome comes with the provider calls made, in order.\<close>

definition startAuthRequest ::
  "Server \<Rightarrow> ident \<Rightarrow> string \<Rightarrow> time \<Rightarrow> StartAuthRequestParams \<Rightarrow> Context \<Rightarrow> Storage
     \<Rightarrow> (ErrorCode + StartAuthRequestResponse) \<times> ProviderCall list \<times> Storage" where
  "startAuthRequest srv rid token now p ctx st =
     (let (auth, st1) = getAuth srv (sar_email p) st
      in case getAuthenticators srv auth of
           (Inl e, calls) \<Rightarrow> (Inl e, calls, st1)
         | (Inr ms, calls) \<Rightarrow>
             (case at_index (availableAuthenticators p auth ms)
                     (case sar_authenticatorIndex p of None \<Rightarrow> 0 | Some i \<Rightarrow> i) of
                None \<Rightarrow> (Inl NOT_FOUND, calls, st1)
              | Some (k, authenticator) \<Rightarrow>
                  (case getAuthServer srv (authenticator_type authenticator) of
                     None \<Rightarrow> (Inl NOT_SUPPORTED, calls, st1)
                   | Some provider \<Rightarrow>
                       (let request =
                              new_AuthRequest rid token (authenticator_id authenticator)
                                (authenticator_type authenticator)
                                (if sar_purpose p = Login \<and> accountStatus auth \<noteq> AccountActive
                                 then Signup else sar_purpose p)
                                (ctx_device ctx);
                            calls1 = calls @
                              [CallInitAuthRequest (authenticator_id authenticator) (request_id request)]
                        in case initAuthRequest provider authenticator request (sar_data p) of
                             Inl e \<Rightarrow> (Inl e, calls1, st1)
                           | Inr responseData \<Rightarrow>
                               (let authenticator' = authenticator\<lparr>authenticator_lastUsed := Some now\<rparr>;
                                    auth1 =
                                      (if k < length (authenticators auth)
                                       then auth\<lparr>authenticators := (authenticators auth)[k := authenticator']\<rparr>
                                       else auth);
                                    deviceTrusted =
                                      (case ctx_device ctx of
                                         None \<Rightarrow> False
                                       | Some device \<Rightarrow>
                                           list_ex (\<lambda>d. device_id d = device_id device)
                                             (trustedDevices auth));
                                    response =
                                      \<lparr> resp_id = request_id request, resp_data = responseData,
                                        resp_token = request_token request,
                                        resp_type = request_type request,
                                        resp_authenticatorId = authenticator_id authenticator,
                                        resp_requestStatus = request_status request,
                                        resp_deviceTrusted = deviceTrusted,
                                        resp_accountStatus = None, resp_provisioning = None \<rparr>
                                in if request_purpose request = Login \<and> deviceTrusted
                                   then
                                     (let request' = request
                                            \<lparr>request_verified := Some now, request_status := Verified\<rparr>;
                                          auth2 = auth1\<lparr>authRequests := authRequests auth1 @ [request']\<rparr>;
                                          response' = response
                                            \<lparr> resp_requestStatus := Verified,
                                              resp_accountStatus := Some (accountStatus auth2),
                                              resp_provisioning :=
                                                Some (prov_account (getProvisioning srv auth2)) \<rparr>
                                      in (Inr response', calls1, save_auth auth2 st1))
                                   else
                                     (let auth2 = auth1\<lparr>authRequests := authRequests auth1 @ [request]\<rparr>
                                      in (Inr response, calls1, save_auth auth2 st1)))))))"

section \<open>Organizations: members and roles\<close>

text \<open>Modelled from the spec: the membership queries of \<^verbatim>\<open>Org\<close> (org.ts is not among
  the sources). An organization lists its ``members (id, role, name, vault
  assignments)'' and its invites; the roles are ordered ``Owner \<open>\<supset>\<close> Admin \<open>\<supset>\<close> Member,
  plus a Suspended state''.\<close>

definition getMember :: "Org \<Rightarrow> ident \<Rightarrow> OrgMember option" where
  "getMember org i = find (\<lambda>m. member_id m = i) (org_members org)"

definition isMember :: "Org \<Rightarrow> ident \<Rightarrow> bool" where
  "isMember org i \<longleftrightarrow> getMember org i \<noteq> None"

definition isOwner :: "Org \<Rightarrow> ident \<Rightarrow> bool" where
  "isOwner org i \<longleftrightarrow> (case getMember org i of None \<Rightarrow> False | Some m \<Rightarrow> member_role m = Owner)"

definition isAdmin :: "Org \<Rightarrow> ident \<Rightarrow> bool" where
  "isAdmin org i \<longleftrightarrow>
     (case getMember org i of None \<Rightarrow> False | Some m \<Rightarrow> member_role m = Owner \<or> member_role m = Admin)"


definition getInvite :: "Org \<Rightarrow> ident \<Rightarrow> Invite option" where
  "getInvite org i = find (\<lambda>inv. invite_id inv = i) (org_invites org)"

section \<open>Messages and metadata propagation\<close>

text \<open>A link into the client application, \<^verbatim>\<open>`${clientUrl}/${path}`\<close> followed by the
  query parameters, if any: its base, its path and the parameters in the order they
  were set (writing them out as a URL is left to the reader of the link).\<close>

record Link =
  link_base :: string
  link_path :: string
  link_params :: "(string \<times> string) list"

text \<open>What the controller hands to \<^verbatim>\<open>messenger.send\<close>, next to the recipient's email.\<close>

datatype Message =
    InviteCreatedMessage Invite Link
  | MemberAddedMessage Org Link

text \<open>Modelled from the spec: \<^verbatim>\<open>AuthType.Email\<close> (auth.ts is not among the sources), the
  type of the ``email code'' authenticators.\<close>

definition Email :: AuthType where
  "Email = ''email''"

text \<open>
  \<^verbatim>\<open>Server.updateMetaData(org)\<close>, with the fresh revision it draws and the time \<open>now\<close>. The
  source starts one task per vault and per member and awaits them together; the model
  runs them one after the other, in list order, which leaves the same storage whenever
  the entities concerned are stored under their own ids and no id occurs twice in a
  list. A vault or an account that is not stored is dropped from the organization.
\<close>

fun updateVaults :: "Org \<Rightarrow> VaultInfo list \<Rightarrow> Storage \<Rightarrow> VaultInfo list \<times> Storage" where
  "updateVaults org [] st = ([], st)"
| "updateVaults org (vaultInfo # vaultInfos) st =
     (case stored_vaults st (vaultinfo_id vaultInfo) of
        None \<Rightarrow> updateVaults org vaultInfos st
      | Some vault \<Rightarrow>
          (let vault' = vault
                 \<lparr> vault_name := vaultinfo_name vaultInfo,
                   vault_org := Some \<lparr> orginfo_id = org_id org, orginfo_name = org_name org,
                                       orginfo_revision = Some (org_revision org) \<rparr> \<rparr>;
               (kept, st') = updateVaults org vaultInfos (save_vault vault' st)
           in (vaultInfo\<lparr>vaultinfo_revision := Some (vault_revision vault')\<rparr> # kept, st')))"

fun updateMembers :: "Org \<Rightarrow> OrgMember list \<Rightarrow> Storage \<Rightarrow> OrgMember list \<times> Storage" where
  "updateMembers org [] st = ([], st)"
| "updateMembers org (member # members) st =
     (case stored_accounts st (member_id member) of
        None \<Rightarrow> updateMembers org members st
      | Some acc \<Rightarrow>
          (let acc' = acc
                 \<lparr>account_orgs :=
                    filter (\<lambda>orgInfo. orginfo_id orgInfo \<noteq> org_id org) (account_orgs acc) @
                    [\<lparr> orginfo_id = org_id org, orginfo_name = org_name org,
                       orginfo_revision = Some (org_revision org) \<rparr>]\<rparr>;
               (kept, st') = updateMembers org members (save_account acc' st)
           in (member\<lparr>member_name := account_name acc'\<rparr> # kept, st')))"

definition updateMetaData :: "ident \<Rightarrow> time \<Rightarrow> Org \<Rightarrow> Storage \<Rightarrow> Org \<times> Storage" where
  "updateMetaData uuid now org st =
     (let org1 = org\<lparr> org_revision := uuid, org_updated := now \<rparr>;
          (vaults, st1) = updateVaults org1 (org_vaults org1) st;
          (members, st2) = updateMembers org1 (org_members org1) st1
      in (org1\<lparr> org_vaults := vaults, org_members := members \<rparr>, st2))"

section \<open>Updating an account\<close>



section \<open>Updating an organization\<close>

text \<open>The task \<^verbatim>\<open>updateOrg\<close> starts for a new invite, with the id and the token a signup
  request draws: the invite is noted on the invitee's Auth record; an invitee who is
  not registered gets a verified signup request and a link to the signup page that
  carries it; the record is saved and the link is mailed to the invitee.\<close>

definition inviteCreated ::
  "Server \<Rightarrow> time \<Rightarrow> ident \<Rightarrow> string \<Rightarrow> Org \<Rightarrow> Invite \<Rightarrow> Storage
     \<Rightarrow> (string \<times> Message) \<times> Storage" where
  "inviteCreated srv now rid token org invite st =
     (let path = ''invite/'' @ org_id org @ ''/'' @ invite_id invite;
          (auth, st1) = getAuth srv (invite_email invite) st;
          auth1 = auth
            \<lparr>auth_invites := auth_invites auth @
               [\<lparr> authinvite_id = invite_id invite, authinvite_orgId = org_id org,
                  authinvite_orgName = org_name org \<rparr>]\<rparr>;
          signupRequest = (new_AuthRequest rid token [] Email Signup None)
            \<lparr> request_verified := Some now, request_status := Verified \<rparr>
      in if accountStatus auth1 = Unregistered
         then ((invite_email invite,
                InviteCreatedMessage invite
                  \<lparr> link_base = clientUrl (config srv), link_path = ''signup/'',
                    link_params =
                      [(''email'', invite_email invite), (''next'', path),
                       (''mfaToken'', request_token signupRequest),
                       (''mfaId'', request_id signupRequest), (''mfaVerified'', ''true'')] \<rparr>),
               save_auth (auth1\<lparr>authRequests := authRequests auth1 @ [signupRequest]\<rparr>) st1)
         else ((invite_email invite,
                InviteCreatedMessage invite
                  \<lparr> link_base = clientUrl (config srv), link_path = path,
                    link_params = [(''email'', invite_email invite)] \<rparr>),
               save_auth auth1 st1))"

text \<open>The tasks for the new invites, the removed invites and the removed members. As in
  \<^verbatim>\<open>updateMetaData\<close>, the source starts them together and the model runs them in list
  order; the \<open>n\<close>-th new invite draws \<open>fresh (2 * n)\<close> and \<open>fresh (2 * n + 1)\<close>. A removed
  member whose account is not stored makes its task fail with \<open>NOT_FOUND\<close>; the other
  tasks run all the same, and \<open>removeMembers\<close> tells whether every account was found.\<close>

fun createInvites ::
  "Server \<Rightarrow> time \<Rightarrow> (nat \<Rightarrow> string) \<Rightarrow> nat \<Rightarrow> Org \<Rightarrow> Invite list \<Rightarrow> Storage
     \<Rightarrow> (string \<times> Message) list \<times> Storage" where
  "createInvites srv now fresh n org [] st = ([], st)"
| "createInvites srv now fresh n org (invite # invites) st =
     (let (sent, st1) = inviteCreated srv now (fresh (2 * n)) (fresh (2 * n + 1)) org invite st;
          (rest, st2) = createInvites srv now fresh (Suc n) org invites st1
      in (sent # rest, st2))"

fun removeInvites :: "Server \<Rightarrow> Invite list \<Rightarrow> Storage \<Rightarrow> Storage" where
  "removeInvites srv [] st = st"
| "removeInvites srv (invite # invites) st =
     (let (auth, st1) = getAuth srv (invite_email invite) st;
          auth' = auth
            \<lparr>auth_invites :=
               filter (\<lambda>inv. authinvite_id inv \<noteq> invite_id invite) (auth_invites auth)\<rparr>
      in removeInvites srv invites (save_auth auth' st1))"

fun removeMembers :: "Org \<Rightarrow> OrgMember list \<Rightarrow> Storage \<Rightarrow> bool \<times> Storage" where
  "removeMembers org [] st = (True, st)"
| "removeMembers org (member # members) st =
     (case stored_accounts st (member_id member) of
        None \<Rightarrow> (False, snd (removeMembers org members st))
      | Some acc \<Rightarrow>
          removeMembers org members
            (save_account
               (acc\<lparr>account_orgs :=
                      filter (\<lambda>orgInfo. orginfo_id orgInfo \<noteq> org_id org) (account_orgs acc)\<rparr>)
               st))"

text \<open>\<^verbatim>\<open>updateOrg\<close>, the payload being an \<^verbatim>\<open>Org\<close>, with the fresh revision \<open>uuid\<close> of the
  organization, the values \<open>fresh\<close> the signup requests draw and the time \<open>now\<close>. The
  outcome comes with the messages sent: those for the new invites, then those for the
  new members. When a removed member's account is missing, the method throws
  \<open>NOT_FOUND\<close> once it awaits its tasks, after \<^verbatim>\<open>updateMetaData\<close> has run and the messages
  are out, and before the organization is saved.\<close>

definition updateOrg ::
  "Server \<Rightarrow> ident \<Rightarrow> (nat \<Rightarrow> string) \<Rightarrow> time \<Rightarrow> Org \<Rightarrow> Context \<Rightarrow> Storage
     \<Rightarrow> (ErrorCode + Org) \<times> (string \<times> Message) list \<times> Storage" where
  "updateOrg srv uuid fresh now p ctx st =
     (case requireAuth ctx of
        Inl e \<Rightarrow> (Inl e, [], st)
      | Inr (account, _, auth) \<Rightarrow>
          (case stored_orgs st (org_id p) of
             None \<Rightarrow> (Inl NOT_FOUND, [], st)
           | Some org \<Rightarrow>
               (case find (\<lambda>entry. orgprov_orgId entry = org_id p) (prov_orgs (getProvisioning srv auth)) of
                  None \<Rightarrow> (Inl PROVISIONING_NOT_ALLOWED, [], st)
                | Some orgProvisioning \<Rightarrow>
                    if orgprov_status orgProvisioning = Frozen then (Inl PROVISIONING_NOT_ALLOWED, [], st)
                    else if org_revision p \<noteq> org_revision org then (Inl OUTDATED_REVISION, [], st)
                    else
                      (let owner = (org_owner org = account_id account \<or> isOwner org (account_id account));
                           admin = (owner \<or> isAdmin org (account_id account))
                       in if \<not> admin then (Inl INSUFFICIENT_PERMISSIONS, [], st)
                          else if org_minMemberUpdated p < org_minMemberUpdated org
                          then (Inl BAD_REQUEST, [], st)
                          else
                            (let addedMembers =
                                   filter (\<lambda>m. \<not> isMember org (member_id m)) (org_members p);
                                 removedMembers =
                                   filter (\<lambda>m. \<not> list_ex (\<lambda>m'. member_id m = member_id m') (org_members p))
                                     (org_members org);
                                 addedInvites =
                                   filter (\<lambda>inv. getInvite org (invite_id inv) = None) (org_invites p);
                                 removedInvites =
                                   filter (\<lambda>inv. \<not> list_ex (\<lambda>inv'. invite_id inv = invite_id inv') (org_invites p))
                                     (org_invites org)
                             in if \<not> owner \<and>
                                   (addedMembers \<noteq> [] \<or> removedMembers \<noteq> [] \<or>
                                    addedInvites \<noteq> [] \<or> removedInvites \<noteq> [] \<or>
                                    list_ex
                                      (\<lambda>m. case getMember org (member_id m) of
                                              None \<Rightarrow> True
                                            | Some member \<Rightarrow> member_role member \<noteq> member_role m)
                                      (org_members p))
                                then (Inl INSUFFICIENT_PERMISSIONS, [], st)
                                else if orgprov_quota_members orgProvisioning \<noteq> - 1 \<and>
                                        int (length (org_members p)) > orgprov_quota_members orgProvisioning
                                then (Inl PROVISIONING_QUOTA_EXCEEDED, [], st)
                                else if orgprov_quota_groups orgProvisioning \<noteq> - 1 \<and>
                                        int (length (org_groups p)) > orgprov_quota_groups orgProvisioning
                                then (Inl PROVISIONING_QUOTA_EXCEEDED, [], st)
                                else
                                  (let org1 = org
                                         \<lparr> org_members := org_members p, org_groups := org_groups p,
                                           org_vaults := org_vaults p \<rparr>;
                                       org2 =
                                         (if owner
                                          then org1
                                            \<lparr> org_name := org_name p, org_publicKey := org_publicKey p,
                                              org_keyParams := org_keyParams p,
                                              org_encryptionParams := org_encryptionParams p,
                                              org_encryptedData := org_encryptedData p,
                                              org_signingParams := org_signingParams p,
                                              org_accessors := org_accessors p,
                                              org_invites := org_invites p,
                                              org_minMemberUpdated := org_minMemberUpdated p \<rparr>
                                          else org1);
                                       (invited, st1) = createInvites srv now fresh 0 org2 addedInvites st;
                                       st2 = removeInvites srv removedInvites st1;
                                       (found, st3) = removeMembers org2 removedMembers st2;
                                       (org3, st4) = updateMetaData uuid now org2 st3;
                                       added =
                                         map (\<lambda>m. (member_email m,
                                                    MemberAddedMessage org3
                                                      \<lparr> link_base = clientUrl (config srv),
                                                        link_path = ''org/'' @ org_id org3,
                                                        link_params = [] \<rparr>))
                                           (filter (\<lambda>m. member_id m \<noteq> account_id account) addedMembers)
                                   in if found then (Inr org3, invited @ added, save_org org3 st4)
                                      else (Inl NOT_FOUND, invited @ added, st4)))))))"

section \<open>Updating a vault\<close>


section \<open>Example data\<close>

text \<open>A small installation on which the theorems below are exercised: Alice owns the
  organization Acme, Bob has an account and no membership, and the server knows one
  provider, for email.\<close>

definition device1 :: DeviceInfo where
  "device1 = \<lparr> device_id = ''device-1'', device_locale = ''en'' \<rparr>"

definition email_authenticator :: Authenticator where
  "email_authenticator =
     \<lparr> authenticator_id = ''a1'', authenticator_type = ''email'',
       authenticator_status = AuthenticatorActive, purposes = [Login, Recover],
       authenticator_lastUsed = None \<rparr>"

definition keystore_authenticator :: Authenticator where
  "keystore_authenticator =
     \<lparr> authenticator_id = ''a2'', authenticator_type = ''email'',
       authenticator_status = AuthenticatorActive, purposes = [AccessKeyStore],
       authenticator_lastUsed = None \<rparr>"

definition alice :: Account where
  "alice =
     \<lparr> account_id = ''alice'', account_email = ''alice@x.com'', account_name = ''Alice'',
       account_revision = ''account-rev-1'', account_publicKey = ''pk'',
       account_keyParams = ''kp'', account_encryptionParams = ''ep'',
       account_encryptedData = ''data'',
       account_orgs = [\<lparr> orginfo_id = ''acme'', orginfo_name = ''Acme'', orginfo_revision = None \<rparr>],
       account_mainVault = \<lparr> mainvault_id = ''vault-alice'', mainvault_revision = None \<rparr>,
       account_updated = 0 \<rparr>"

definition bob :: Account where
  "bob =
     \<lparr> account_id = ''bob'', account_email = ''bob@x.com'', account_name = ''Bob'',
       account_revision = ''account-rev-7'', account_publicKey = ''pk'',
       account_keyParams = ''kp'', account_encryptionParams = ''ep'',
       account_encryptedData = ''data'', account_orgs = [],
       account_mainVault = \<lparr> mainvault_id = ''vault-bob'', mainvault_revision = None \<rparr>,
       account_updated = 0 \<rparr>"

definition session1 :: Session where
  "session1 =
     \<lparr> session_id = ''s1'', session_account = ''alice'', session_created = 0,
       session_updated = 0, session_lastUsed = 0, session_expires = None,
       session_key = Some [1, 2, 3], session_device = None, session_lastLocation = None \<rparr>"

definition session2 :: Session where
  "session2 = session1\<lparr> session_id := ''s2'' \<rparr>"

definition session3 :: Session where
  "session3 = session1\<lparr> session_id := ''s3'' \<rparr>"

definition bob_session :: Session where
  "bob_session = session1\<lparr> session_id := ''s9'', session_account := ''bob'' \<rparr>"

definition alice_auth :: Auth where
  "alice_auth =
     \<lparr> auth_id = ''#alice@x.com'', auth_email = ''alice@x.com'', auth_account = Some ''alice'',
       accountStatus = AccountActive,
       authenticators = [email_authenticator, keystore_authenticator], mfaOrder = [],
       sessions = [info session1, info session2], trustedDevices = [device1],
       srpSessions = [\<lparr> srp_id = ''srp-1'', srp_state = ''b'' \<rparr>], authRequests = [],
       auth_invites = [] \<rparr>"

definition bob_auth :: Auth where
  "bob_auth =
     \<lparr> auth_id = ''#bob@x.com'', auth_email = ''bob@x.com'', auth_account = Some ''bob'',
       accountStatus = AccountSuspended, authenticators = [email_authenticator], mfaOrder = [],
       sessions = [info bob_session], trustedDevices = [device1], srpSessions = [],
       authRequests = [], auth_invites = [] \<rparr>"

definition alice_ctx :: Context where
  "alice_ctx =
     \<lparr> ctx_session = Some session1, ctx_account = Some alice, ctx_auth = Some alice_auth,
       ctx_device = Some device1 \<rparr>"

definition bob_ctx :: Context where
  "bob_ctx =
     \<lparr> ctx_session = Some bob_session, ctx_account = Some bob, ctx_auth = Some bob_auth,
       ctx_device = Some device1 \<rparr>"

definition anonymous_ctx :: Context where
  "anonymous_ctx =
     \<lparr> ctx_session = None, ctx_account = None, ctx_auth = None, ctx_device = Some device1 \<rparr>"

definition acme :: Org where
  "acme =
     \<lparr> org_id = ''acme'', org_owner = ''alice'', org_revision = ''org-rev-1'', org_name = ''Acme'',
       org_publicKey = ''pk'', org_keyParams = ''kp'', org_encryptionParams = ''ep'',
       org_encryptedData = ''data'', org_signingParams = ''sp'', org_accessors = ''acc'',
       org_members =
         [\<lparr> member_id = ''alice'', member_email = ''alice@x.com'', member_name = ''Alice'',
            member_role = Owner \<rparr>],
       org_groups = [], org_vaults = [], org_invites = [], org_minMemberUpdated = 0,
       org_updated = 0 \<rparr>"

definition alice_vault :: Vault where
  "alice_vault =
     \<lparr> vault_id = ''vault-alice'', vault_name = ''My Vault'', vault_org = None, vault_owner = ''alice'',
       vault_revision = ''vault-rev-1'', vault_keyParams = ''kp'',
       vault_encryptionParams = ''ep'', vault_accessors = ''acc'', vault_encryptedData = ''data'',
       vault_updated = 0 \<rparr>"

definition acme_vault :: Vault where
  "acme_vault =
     \<lparr> vault_id = ''vault-acme'', vault_name = ''Shared'',
       vault_org = Some \<lparr> orginfo_id = ''acme'', orginfo_name = ''Acme'', orginfo_revision = None \<rparr>,
       vault_owner = ''alice'', vault_revision = ''vault-rev-5'', vault_keyParams = ''kp'',
       vault_encryptionParams = ''ep'', vault_accessors = ''acc'', vault_encryptedData = ''data'',
       vault_updated = 0 \<rparr>"

definition store0 :: Storage where
  "store0 =
     \<lparr> stored_sessions = [''s1'' \<mapsto> session1, ''s2'' \<mapsto> session2, ''s3'' \<mapsto> session3,
                          ''s9'' \<mapsto> bob_session],
       stored_accounts = [''alice'' \<mapsto> alice, ''bob'' \<mapsto> bob],
       stored_auths = [''#alice@x.com'' \<mapsto> alice_auth, ''#bob@x.com'' \<mapsto> bob_auth],
       stored_orgs = [''acme'' \<mapsto> acme],
       stored_vaults = [''vault-alice'' \<mapsto> alice_vault, ''vault-acme'' \<mapsto> acme_vault] \<rparr>"

definition email_provider :: AuthServer where
  "email_provider =
     \<lparr> supportsType = (\<lambda>t. t = ''email''),
       initAuthenticator = (\<lambda>_ _ _. Inr ''ready''),
       activateAuthenticator = (\<lambda>_ _. Inr ''active''),
       initAuthRequest = (\<lambda>_ _ _. Inr ''code sent''),
       verifyAuthRequest = (\<lambda>_ _ _. Inr ()) \<rparr>"

definition provisioning0 :: "ProvisioningStatus \<Rightarrow> Provisioning" where
  "provisioning0 status =
     \<lparr> prov_account = \<lparr> accprov_status = ProvisioningActive, accprov_quota_orgs = 1 \<rparr>,
       prov_orgs =
         [\<lparr> orgprov_orgId = ''acme'', orgprov_status = status, orgprov_quota_members = - 1,
            orgprov_quota_groups = - 1, orgprov_quota_vaults = - 1 \<rparr>] \<rparr>"

definition server0 :: Server where
  "server0 =
     \<lparr> config =
         \<lparr> clientUrl = ''http://localhost:8080'', reportErrors = [],
           maxRequestAge = 60 * 60 * 1000, verifyEmailOnSignup = True,
           defaultAuthTypes = [''email''] \<rparr>,
       authServers = [email_provider],
       getProvisioning = (\<lambda>_. provisioning0 ProvisioningActive),
       getIdFromEmail = (\<lambda>email. ''#'' @ email),
       verify = (\<lambda>_ _. True),
       setA = (\<lambda>_ A. Inr (rev A, [42])),
       new_Session =
         \<lparr> session_id = [], session_account = [], session_created = 0, session_updated = 0,
           session_lastUsed = 0, session_expires = None, session_key = None,
           session_device = None, session_lastLocation = None \<rparr>,
       canRead = (\<lambda>_ _ _. True),
       canWrite = (\<lambda>_ _ _. True) \<rparr>"

definition frozen_server :: Server where
  "frozen_server = server0\<lparr> getProvisioning := (\<lambda>_. provisioning0 Frozen) \<rparr>"

definition unprovisioned_server :: Server where
  "unprovisioned_server =
     server0\<lparr> getProvisioning := (\<lambda>_. (provisioning0 ProvisioningActive)\<lparr> prov_orgs := [] \<rparr>) \<rparr>"

definition request_at :: "ident \<Rightarrow> time \<Rightarrow> Request" where
  "request_at sid t =
     \<lparr> req_method = ''getAccount'',
       req_auth = Some \<lparr> reqauth_session = sid, reqauth_time = t, reqauth_signature = ''sig'' \<rparr>,
       req_location = None \<rparr>"

definition login1 :: CreateSessionParams where
  "login1 =
     \<lparr> cs_account = ''alice'', cs_srpId = ''srp-1'', cs_A = [1, 2], cs_M = [2, 1],
       cs_addTrustedDevice = False \<rparr>"

definition new_session1 :: Session where
  "new_session1 =
     \<lparr> session_id = ''s-new'', session_account = ''alice'', session_created = 100,
       session_updated = 0, session_lastUsed = 0, session_expires = None,
       session_key = None, session_device = Some device1, session_lastLocation = None \<rparr>"

definition login_params :: StartAuthRequestParams where
  "login_params =
     \<lparr> sar_email = ''alice@x.com'', sar_authenticatorId = None, sar_authenticatorIndex = None,
       sar_type = None, sar_supportedTypes = None, sar_purpose = Login, sar_data = None \<rparr>"

definition test_params :: StartAuthRequestParams where
  "test_params = login_params\<lparr> sar_purpose := TestAuthenticator \<rparr>"

definition bob_login :: StartAuthRequestParams where
  "bob_login = login_params\<lparr> sar_email := ''bob@x.com'' \<rparr>"

text \<open>Alice's context as \<^verbatim>\<open>authenticate\<close> leaves it for a request signed with her
  session \<open>s1\<close> at time \<open>50\<close>, and the storage it leaves.\<close>

definition authenticated_ctx :: Context where
  "authenticated_ctx = fst (snd (authenticate server0 50 (request_at ''s1'' 0) anonymous_ctx store0))"

definition authenticated_store :: Storage where
  "authenticated_store = snd (snd (authenticate server0 50 (request_at ''s1'' 0) anonymous_ctx store0))"

definition adhoc_alice :: Authenticator where
  "adhoc_alice =
     \<lparr> authenticator_id = ''ad_hoc_alice@x.com_email'', authenticator_type = ''email'',
       authenticator_status = AuthenticatorActive,
       purposes = [Signup, Login, Recover, GetLegacyData], authenticator_lastUsed = None \<rparr>"

text \<open>Acme with a second member, Carol, who has no stored account.\<close>

definition carol_member :: OrgMember where
  "carol_member =
     \<lparr> member_id = ''carol'', member_email = ''carol@x.com'', member_name = ''Carol'',
       member_role = Member \<rparr>"

definition acme_with_carol :: Org where
  "acme_with_carol = acme\<lparr> org_members := org_members acme @ [carol_member] \<rparr>"

definition store_carol :: Storage where
  "store_carol = store0\<lparr> stored_orgs := [''acme'' \<mapsto> acme_with_carol] \<rparr>"

section \<open>Properties of the array operations\<close>

lemma findIndex_ge: "- 1 \<le> findIndex p xs"
  by (induction xs) (auto simp: Let_def)

lemma findIndex_less: "findIndex p xs < int (length xs)"
  by (induction xs) (auto simp: Let_def)

lemma findIndex_neg_iff: "findIndex p xs < 0 \<longleftrightarrow> (\<forall>x \<in> set xs. \<not> p x)"
  by (induction xs) (auto simp: Let_def)

lemma findIndex_absent: "(\<forall>x \<in> set xs. \<not> p x) \<Longrightarrow> findIndex p xs = - 1"
  by (induction xs) (auto simp: Let_def)

lemma splice_array_found:
  "0 \<le> i \<Longrightarrow> i < int (length xs) \<Longrightarrow>
     splice_array i 1 xs = take (nat i) xs @ drop (Suc (nat i)) xs"
  by (simp add: splice_array_def Let_def nat_add_distrib)

lemma splice_array_minus_one: "splice_array (- 1) 1 xs = butlast xs"
proof (cases xs rule: rev_cases)
  case Nil
  then show ?thesis by (simp add: splice_array_def)
next
  case (snoc ys y)
  then show ?thesis by (simp add: splice_array_def Let_def)
qed

lemma find_Some_holds: "find P xs = Some x \<Longrightarrow> P x \<and> x \<in> set xs"
  by (induction xs) (auto split: if_splits)

section \<open>Properties of the storage and the context\<close>

lemma requireAuth_Inr:
  "ctx_session ctx = Some session \<Longrightarrow> ctx_account ctx = Some account \<Longrightarrow>
     ctx_auth ctx = Some auth \<Longrightarrow> requireAuth ctx = Inr (account, session, auth)"
  by (simp add: requireAuth_def)

lemma requireAuth_InrD:
  "requireAuth ctx = Inr (account, session, auth) \<Longrightarrow>
     ctx_session ctx = Some session \<and> ctx_account ctx = Some account \<and> ctx_auth ctx = Some auth"
  by (auto simp: requireAuth_def split: option.splits)

lemma stored_sessions_save_auth: "stored_sessions (save_auth a st) = stored_sessions st"
  by (simp add: save_auth_def)

lemma stored_sessions_save_account: "stored_sessions (save_account a st) = stored_sessions st"
  by (simp add: save_account_def)

lemma stored_auths_save_auth: "stored_auths (save_auth a st) (auth_id a) = Some a"
  by (simp add: save_auth_def)

lemma getAuth_again: "getAuth srv email st = (auth, st1) \<Longrightarrow> getAuth srv email st1 = (auth, st1)"
  by (auto simp: getAuth_def Let_def save_auth_def delete_auth_def new_Auth_def fun_upd_twist
      split: option.splits if_splits)

lemmas example_defs =
  device1_def email_authenticator_def keystore_authenticator_def alice_def bob_def
  session1_def session2_def session3_def bob_session_def alice_auth_def bob_auth_def
  alice_ctx_def bob_ctx_def anonymous_ctx_def acme_def alice_vault_def store0_def
  acme_vault_def email_provider_def provisioning0_def server0_def frozen_server_def
  unprovisioned_server_def request_at_def

section \<open>Deleting an authenticator\<close>

text \<open>
  C7. A \<^verbatim>\<open>deleteAuthenticator\<close> call on an Auth record that holds exactly one
  authenticator fails, and leaves the context and the storage (hence the authenticator
  list) as they were. On a record that holds two authenticators \<open>a\<close> and \<open>b\<close>, one of
  which has the given id, the call succeeds, and the record it saves holds exactly one
  authenticator: the other one.
\<close>

theorem deleteAuthenticator_keeps_last:
  assumes "ctx_session ctx = Some session" and "ctx_account ctx = Some account"
    and "ctx_auth ctx = Some auth"
  shows "(length (authenticators auth) = 1 \<longrightarrow>
            (\<exists>e. deleteAuthenticator i ctx st = (Inl e, ctx, st))) \<and>
         (\<forall>a b. authenticators auth = [a, b] \<and> (authenticator_id a = i \<or> authenticator_id b = i) \<longrightarrow>
            (let auth' = auth\<lparr>authenticators := (if authenticator_id a = i then [b] else [a])\<rparr>
             in deleteAuthenticator i ctx st =
                  (Inr (), ctx\<lparr>ctx_auth := Some auth'\<rparr>, save_auth auth' st)))"
  using assms
  by (auto simp: deleteAuthenticator_def requireAuth_Inr splice_array_def Let_def)

theorem deleteAuthenticator_keeps_last_witness:
  "deleteAuthenticator ''a1'' bob_ctx store0 = (Inl BAD_REQUEST, bob_ctx, store0) \<and>
   deleteAuthenticator ''a2'' alice_ctx store0 =
     (Inr (), alice_ctx\<lparr>ctx_auth := Some (alice_auth\<lparr>authenticators := [email_authenticator]\<rparr>)\<rparr>,
      save_auth (alice_auth\<lparr>authenticators := [email_authenticator]\<rparr>) store0)"
proof -
  have one: "length (authenticators bob_auth) = 1"
    by (simp add: bob_auth_def)
  have two: "authenticators alice_auth = [email_authenticator, keystore_authenticator] \<and>
      (authenticator_id email_authenticator = ''a2'' \<or> authenticator_id keystore_authenticator = ''a2'')"
    by (simp add: alice_auth_def keystore_authenticator_def)
  have "\<exists>e. deleteAuthenticator ''a1'' bob_ctx store0 = (Inl e, bob_ctx, store0)"
    using deleteAuthenticator_keeps_last [of bob_ctx bob_session bob bob_auth "''a1''" store0] one
    by (simp add: bob_ctx_def)
  moreover have "fst (deleteAuthenticator ''a1'' bob_ctx store0) = Inl BAD_REQUEST"
    by (simp add: deleteAuthenticator_def requireAuth_def bob_ctx_def bob_auth_def)
  ultimately have first: "deleteAuthenticator ''a1'' bob_ctx store0 = (Inl BAD_REQUEST, bob_ctx, store0)"
    by auto
  have second: "deleteAuthenticator ''a2'' alice_ctx store0 =
     (Inr (), alice_ctx\<lparr>ctx_auth := Some (alice_auth\<lparr>authenticators := [email_authenticator]\<rparr>)\<rparr>,
      save_auth (alice_auth\<lparr>authenticators := [email_authenticator]\<rparr>) store0)"
    using deleteAuthenticator_keeps_last [of alice_ctx session1 alice alice_auth "''a2''" store0] two
    by (simp add: alice_ctx_def email_authenticator_def Let_def)
  from first second show ?thesis by simp
qed

text \<open>
  C8. In \<^verbatim>\<open>deleteAuthenticator\<close> the guard on the number of authenticators comes before
  the lookup of the id: on a record that holds at most one authenticator the call fails
  with \<open>BAD_REQUEST\<close> whatever the id, also an id that names no authenticator; and the
  call fails with \<open>NOT_FOUND\<close> exactly when the record holds two or more authenticators
  and none of them has the id.
\<close>

theorem deleteAuthenticator_guard_first:
  assumes "ctx_session ctx = Some session" and "ctx_account ctx = Some account"
    and "ctx_auth ctx = Some auth"
  shows "(length (authenticators auth) \<le> 1 \<longrightarrow>
            deleteAuthenticator i ctx st = (Inl BAD_REQUEST, ctx, st)) \<and>
         (fst (deleteAuthenticator i ctx st) = Inl NOT_FOUND \<longleftrightarrow>
            2 \<le> length (authenticators auth) \<and>
            (\<forall>a \<in> set (authenticators auth). authenticator_id a \<noteq> i))"
  using assms findIndex_neg_iff [of "\<lambda>a. authenticator_id a = i" "authenticators auth"]
  by (auto simp: deleteAuthenticator_def requireAuth_Inr Let_def)

theorem deleteAuthenticator_guard_first_witness:
  "length (authenticators bob_auth) \<le> 1 \<and>
   ''no such id'' \<notin> authenticator_id ` set (authenticators bob_auth) \<and>
   deleteAuthenticator ''no such id'' bob_ctx store0 = (Inl BAD_REQUEST, bob_ctx, store0) \<and>
   2 \<le> length (authenticators alice_auth) \<and>
   fst (deleteAuthenticator ''no such id'' alice_ctx store0) = Inl NOT_FOUND"
proof -
  have one: "length (authenticators bob_auth) \<le> 1"
    and none: "''no such id'' \<notin> authenticator_id ` set (authenticators bob_auth)"
    by (simp_all add: bob_auth_def email_authenticator_def)
  have two: "2 \<le> length (authenticators alice_auth) \<and>
      (\<forall>a \<in> set (authenticators alice_auth). authenticator_id a \<noteq> ''no such id'')"
    by (simp add: alice_auth_def email_authenticator_def keystore_authenticator_def)
  have first: "deleteAuthenticator ''no such id'' bob_ctx store0 = (Inl BAD_REQUEST, bob_ctx, store0)"
    using deleteAuthenticator_guard_first [of bob_ctx bob_session bob bob_auth "''no such id''" store0] one
    by (simp add: bob_ctx_def)
  have second: "fst (deleteAuthenticator ''no such id'' alice_ctx store0) = Inl NOT_FOUND"
    using deleteAuthenticator_guard_first [of alice_ctx session1 alice alice_auth "''no such id''" store0] two
    by (simp add: alice_ctx_def)
  from one none first two second show ?thesis by blast
qed

section \<open>The replay window of the session authenticator\<close>

text \<open>
  C4, as amended. \<^verbatim>\<open>authenticate\<close> rejects a request with \<open>MAX_REQUEST_AGE_EXCEEDED\<close>
  exactly when the request carries an auth header, its session is found, has not
  expired and verifies the signature, and the age \<open>now - header.time\<close> exceeds
  \<open>maxRequestAge\<close>. The window is one-sided: the age is a signed difference, so a request
  exactly \<open>maxRequestAge\<close> old is accepted, one a millisecond older is rejected, and a
  timestamp in the future, however far, is never rejected by this check.
\<close>

theorem authenticate_request_age:
  "fst (authenticate srv now req ctx st) = Inl MAX_REQUEST_AGE_EXCEEDED \<longleftrightarrow>
     (\<exists>h session. req_auth req = Some h \<and>
        stored_sessions st (reqauth_session h) = Some session \<and>
        \<not> (case session_expires session of None \<Rightarrow> False | Some e \<Rightarrow> e < now) \<and>
        verify srv session req \<and>
        now - reqauth_time h > maxRequestAge (config srv))"
  by (auto simp: authenticate_def Let_def split: option.splits prod.splits)

theorem authenticate_request_age_witness:
  "fst (authenticate server0 3600000 (request_at ''s1'' 0) anonymous_ctx store0)
     \<noteq> Inl MAX_REQUEST_AGE_EXCEEDED \<and>
   fst (authenticate server0 3600001 (request_at ''s1'' 0) anonymous_ctx store0)
     = Inl MAX_REQUEST_AGE_EXCEEDED \<and>
   fst (authenticate server0 0 (request_at ''s1'' 3600001) anonymous_ctx store0)
     \<noteq> Inl MAX_REQUEST_AGE_EXCEEDED"
  using authenticate_request_age [of server0 3600000 "request_at ''s1'' 0" anonymous_ctx store0]
    authenticate_request_age [of server0 3600001 "request_at ''s1'' 0" anonymous_ctx store0]
    authenticate_request_age [of server0 0 "request_at ''s1'' 3600001" anonymous_ctx store0]
  by (simp add: request_at_def server0_def store0_def session1_def)

text \<open>The claim as stated, with a symmetric window, fails: a request stamped two hours
  ahead of the server's clock, twice the window, passes the authenticator.\<close>

theorem authenticate_future_timestamp_counterexample:
  "\<bar>0 - reqauth_time (the (req_auth (request_at ''s1'' 7200000)))\<bar> > maxRequestAge (config server0) \<and>
   fst (authenticate server0 0 (request_at ''s1'' 7200000) anonymous_ctx store0) = Inr ()"
  by (simp add: authenticate_def getAuth_def Let_def example_defs)

section \<open>Creating a session\<close>

text \<open>
  C2. The session a successful \<^verbatim>\<open>createSession\<close> returns has no signing key, while the
  session stored under its id is that same session with the shared key \<open>K\<close> that the SRP
  server negotiated for the pending handshake \<open>srpId\<close>.
\<close>

theorem createSession_strips_key:
  assumes "createSession srv uuid now p ctx st = (Inr session, st')"
  shows "session_key session = None \<and> session_id session = uuid \<and>
         (\<exists>srpState M1 K.
            srp_id srpState = cs_srpId p \<and> setA srv srpState (cs_A p) = Inr (M1, K) \<and>
            stored_sessions st' uuid = Some (session\<lparr>session_key := Some K\<rparr>))"
  using assms
  by (auto simp: createSession_def Let_def stored_sessions_save_auth
        stored_sessions_save_account save_session_def
      split: option.splits prod.splits sum.splits if_splits dest!: find_Some_holds)

lemma login1_succeeds:
  "fst (createSession server0 ''s-new'' 100 login1 anonymous_ctx store0) = Inr new_session1"
  by (simp add: createSession_def getAuth_def Let_def equalCT_def login1_def new_session1_def
      example_defs)

theorem createSession_strips_key_witness:
  "fst (createSession server0 ''s-new'' 100 login1 anonymous_ctx store0) = Inr new_session1 \<and>
   session_key new_session1 = None \<and>
   (\<exists>K. stored_sessions (snd (createSession server0 ''s-new'' 100 login1 anonymous_ctx store0)) ''s-new''
           = Some (new_session1\<lparr>session_key := Some K\<rparr>))"
proof -
  have run: "createSession server0 ''s-new'' 100 login1 anonymous_ctx store0 =
      (Inr new_session1, snd (createSession server0 ''s-new'' 100 login1 anonymous_ctx store0))"
    using login1_succeeds by (metis prod.collapse)
  from createSession_strips_key [OF run] login1_succeeds show ?thesis by blast
qed

text \<open>
  C3. Once the account is found, the two failure modes of \<^verbatim>\<open>createSession\<close> (no pending
  handshake with the given id on the Auth record; a client proof \<open>M\<close> that differs from
  the proof \<open>M1\<close> the SRP server expects) return the same error, \<open>INVALID_CREDENTIALS\<close>.
  Whatever error the call fails with, the storage it leaves is the storage as the
  lookup of the Auth record left it, where a second lookup finds the same record, with
  the same pending handshakes: the attempt can be repeated. Only a call that succeeds
  saves an Auth record from which the handshakes with the given id are gone.
\<close>

theorem createSession_invalid_credentials:
  assumes "stored_accounts st (cs_account p) = Some acc"
    and "getAuth srv (account_email acc) st = (auth, st1)"
  shows "(find (\<lambda>s. srp_id s = cs_srpId p) (srpSessions auth) = None \<longrightarrow>
            createSession srv uuid now p ctx st = (Inl INVALID_CREDENTIALS, st1)) \<and>
         (\<forall>srpState M1 K.
            find (\<lambda>s. srp_id s = cs_srpId p) (srpSessions auth) = Some srpState \<and>
            setA srv srpState (cs_A p) = Inr (M1, K) \<and> cs_M p \<noteq> M1 \<longrightarrow>
            createSession srv uuid now p ctx st = (Inl INVALID_CREDENTIALS, st1)) \<and>
         (\<forall>e st'. createSession srv uuid now p ctx st = (Inl e, st') \<longrightarrow>
            st' = st1 \<and> getAuth srv (account_email acc) st' = (auth, st')) \<and>
         (\<forall>session st'. createSession srv uuid now p ctx st = (Inr session, st') \<longrightarrow>
            (\<exists>auth'. stored_auths st' (auth_id auth) = Some auth' \<and>
               srpSessions auth' = filter (\<lambda>s. srp_id s \<noteq> cs_srpId p) (srpSessions auth)))"
proof (intro conjI allI impI)
  assume "find (\<lambda>s. srp_id s = cs_srpId p) (srpSessions auth) = None"
  with assms show "createSession srv uuid now p ctx st = (Inl INVALID_CREDENTIALS, st1)"
    by (simp add: createSession_def)
next
  fix srpState M1 K
  assume "find (\<lambda>s. srp_id s = cs_srpId p) (srpSessions auth) = Some srpState \<and>
    setA srv srpState (cs_A p) = Inr (M1, K) \<and> cs_M p \<noteq> M1"
  with assms show "createSession srv uuid now p ctx st = (Inl INVALID_CREDENTIALS, st1)"
    by (simp add: createSession_def equalCT_def)
next
  fix e st'
  assume failed: "createSession srv uuid now p ctx st = (Inl e, st')"
  with assms show "st' = st1"
    by (auto simp: createSession_def Let_def split: option.splits sum.splits if_splits)
  with assms(2) show "getAuth srv (account_email acc) st' = (auth, st')"
    by (simp add: getAuth_again)
next
  fix session st'
  assume "createSession srv uuid now p ctx st = (Inr session, st')"
  with assms
  show "\<exists>auth'. stored_auths st' (auth_id auth) = Some auth' \<and>
          srpSessions auth' = filter (\<lambda>s. srp_id s \<noteq> cs_srpId p) (srpSessions auth)"
    by (auto simp: createSession_def Let_def save_auth_def
        split: option.splits sum.splits if_splits dest!: find_Some_holds)
qed

theorem createSession_invalid_credentials_witness:
  "createSession server0 ''s-new'' 100 (login1\<lparr>cs_srpId := ''srp-9''\<rparr>) anonymous_ctx store0
     = (Inl INVALID_CREDENTIALS, store0) \<and>
   createSession server0 ''s-new'' 100 (login1\<lparr>cs_M := [9, 9]\<rparr>) anonymous_ctx store0
     = (Inl INVALID_CREDENTIALS, store0) \<and>
   getAuth server0 ''alice@x.com'' store0 = (alice_auth, store0) \<and>
   (\<exists>auth'. stored_auths (snd (createSession server0 ''s-new'' 100 login1 anonymous_ctx store0))
               ''#alice@x.com'' = Some auth' \<and> srpSessions auth' = [])"
proof -
  have acc: "stored_accounts store0 (cs_account login1) = Some alice"
    by (simp add: store0_def login1_def)
  have auth: "getAuth server0 (account_email alice) store0 = (alice_auth, store0)"
    by (simp add: getAuth_def store0_def server0_def alice_def)
  have unknown: "find (\<lambda>s. srp_id s = ''srp-9'') (srpSessions alice_auth) = None"
    by (simp add: alice_auth_def)
  have known: "find (\<lambda>s. srp_id s = ''srp-1'') (srpSessions alice_auth)
      = Some \<lparr> srp_id = ''srp-1'', srp_state = ''b'' \<rparr>"
    by (simp add: alice_auth_def)
  have proof_differs: "setA server0 \<lparr> srp_id = ''srp-1'', srp_state = ''b'' \<rparr> [1, 2] = Inr ([2, 1], [42])
      \<and> [9, 9] \<noteq> [2, 1 :: nat]"
    by (simp add: server0_def)
  have a: "createSession server0 ''s-new'' 100 (login1\<lparr>cs_srpId := ''srp-9''\<rparr>) anonymous_ctx store0
     = (Inl INVALID_CREDENTIALS, store0)"
    using createSession_invalid_credentials
      [of store0 "login1\<lparr>cs_srpId := ''srp-9''\<rparr>" alice server0 alice_auth store0
        "''s-new''" 100 anonymous_ctx]
      acc auth unknown
    by (simp add: login1_def)
  have b: "createSession server0 ''s-new'' 100 (login1\<lparr>cs_M := [9, 9]\<rparr>) anonymous_ctx store0
     = (Inl INVALID_CREDENTIALS, store0)"
    using createSession_invalid_credentials
      [of store0 "login1\<lparr>cs_M := [9, 9]\<rparr>" alice server0 alice_auth store0
        "''s-new''" 100 anonymous_ctx]
      acc auth known proof_differs
    by (simp add: login1_def)
  have run: "createSession server0 ''s-new'' 100 login1 anonymous_ctx store0 =
      (Inr new_session1, snd (createSession server0 ''s-new'' 100 login1 anonymous_ctx store0))"
    using login1_succeeds by (metis prod.collapse)
  have c: "\<exists>auth'. stored_auths (snd (createSession server0 ''s-new'' 100 login1 anonymous_ctx store0))
               ''#alice@x.com'' = Some auth' \<and> srpSessions auth' = []"
    using createSession_invalid_credentials
      [of store0 login1 alice server0 alice_auth store0 "''s-new''" 100 anonymous_ctx]
      acc auth run
    by (simp add: login1_def alice_auth_def)
  from a b c auth show ?thesis by (simp add: alice_def)
qed

section \<open>Revoking a session\<close>

lemma findIndex_first:
  "findIndex p xs = k \<Longrightarrow> 0 \<le> k \<Longrightarrow>
     \<exists>pre x post. xs = pre @ x # post \<and> p x \<and> (\<forall>y \<in> set pre. \<not> p y) \<and> nat k = length pre"
proof (induction xs arbitrary: k)
  case Nil
  then show ?case by simp
next
  case (Cons a xs)
  show ?case
  proof (cases "p a")
    case True
    with Cons.prems have "a # xs = [] @ a # xs \<and> p a \<and> (\<forall>y \<in> set []. \<not> p y) \<and> nat k = length ([] :: 'a list)"
      by simp
    then show ?thesis by blast
  next
    case False
    with Cons.prems have rest: "findIndex p xs = k - 1" "0 \<le> k - 1"
      by (auto simp: Let_def split: if_splits)
    from Cons.IH [OF rest] obtain pre x post
      where "xs = pre @ x # post" "p x" "\<forall>y \<in> set pre. \<not> p y" "nat (k - 1) = length pre"
      by blast
    with False rest have "a # xs = (a # pre) @ x # post \<and> p x \<and> (\<forall>y \<in> set (a # pre). \<not> p y) \<and>
        nat k = length (a # pre)"
      by auto
    then show ?thesis by blast
  qed
qed

text \<open>After \<^verbatim>\<open>authenticate\<close> has accepted a signed request, the context is complete and
  the Auth record lists the info of the session that signed.\<close>

lemma authenticate_lists_session:
  assumes "req_auth req = Some h"
    and "authenticate srv now req ctx0 st0 = (Inr (), ctx, st)"
  shows "\<exists>account session auth. requireAuth ctx = Inr (account, session, auth) \<and>
           info session \<in> set (sessions auth)"
proof -
  from assms obtain s0 account auth0 st1 where
    found: "stored_sessions st0 (reqauth_session h) = Some s0"
      "stored_accounts st0 (session_account s0) = Some account"
      "getAuth srv (account_email account) st0 = (auth0, st1)"
    and ctx: "ctx = ctx0
      \<lparr> ctx_session := Some (s0\<lparr> session_lastUsed := now, session_device := ctx_device ctx0,
            session_lastLocation := req_location req, session_updated := now \<rparr>),
        ctx_account := Some account,
        ctx_auth := Some
          (let s = s0\<lparr> session_lastUsed := now, session_device := ctx_device ctx0,
                 session_lastLocation := req_location req, session_updated := now \<rparr>;
               i = findIndex (\<lambda>x. info_id x = session_id s) (sessions auth0)
           in if i \<noteq> - 1 then auth0\<lparr>sessions := (sessions auth0)[nat i := info s]\<rparr>
              else auth0\<lparr>sessions := sessions auth0 @ [info s]\<rparr>) \<rparr>"
    by (auto simp: authenticate_def Let_def split: option.splits if_splits prod.splits)
  define s where "s = s0\<lparr> session_lastUsed := now, session_device := ctx_device ctx0,
                 session_lastLocation := req_location req, session_updated := now \<rparr>"
  define i where "i = findIndex (\<lambda>x. info_id x = session_id s) (sessions auth0)"
  define auth where "auth = (if i \<noteq> - 1 then auth0\<lparr>sessions := (sessions auth0)[nat i := info s]\<rparr>
              else auth0\<lparr>sessions := sessions auth0 @ [info s]\<rparr>)"
  have "requireAuth ctx = Inr (account, s, auth)"
    using ctx by (simp add: requireAuth_def s_def i_def auth_def Let_def)
  moreover have "info s \<in> set (sessions auth)"
  proof (cases "i = - 1")
    case True
    then show ?thesis by (simp add: auth_def)
  next
    case False
    with findIndex_ge [of "\<lambda>x. info_id x = session_id s" "sessions auth0"]
      findIndex_less [of "\<lambda>x. info_id x = session_id s" "sessions auth0"]
    have "nat i < length (sessions auth0)" by (simp add: i_def)
    with False show ?thesis by (simp add: auth_def set_update_memI)
  qed
  ultimately show ?thesis by blast
qed

text \<open>
  C9. A \<^verbatim>\<open>revokeSession\<close> call reaches the controller with the context that
  \<^verbatim>\<open>authenticate\<close> built for the signed request. When the session to revoke is stored and
  belongs to the caller, the call succeeds and the sessions list of the Auth record it
  saves is shorter by exactly one entry. If the id is on the list, the entry removed is
  the first one with that id. If the id is not on the list, \<^verbatim>\<open>findIndex\<close> yields \<open>-1\<close> and
  \<^verbatim>\<open>splice(-1, 1)\<close> removes the final entry of the list.
\<close>

theorem revokeSession_splice:
  assumes "req_auth req = Some h"
    and "authenticate srv now req ctx0 st0 = (Inr (), ctx, st)"
    and "requireAuth ctx = Inr (account, session, auth)"
    and "stored_sessions st i = Some target"
    and "session_account target = account_id account"
  shows "\<exists>auth'.
           revokeSession i ctx st =
             (Inr (), ctx\<lparr>ctx_auth := Some auth'\<rparr>, save_auth auth' (delete_session target st)) \<and>
           length (sessions auth') + 1 = length (sessions auth) \<and>
           ((\<exists>s \<in> set (sessions auth). info_id s = i) \<longrightarrow>
              (\<exists>pre x post. sessions auth = pre @ x # post \<and> info_id x = i \<and>
                 (\<forall>y \<in> set pre. info_id y \<noteq> i) \<and> sessions auth' = pre @ post)) \<and>
           ((\<forall>s \<in> set (sessions auth). info_id s \<noteq> i) \<longrightarrow>
              sessions auth' = butlast (sessions auth))"
proof -
  define k where "k = findIndex (\<lambda>s. info_id s = i) (sessions auth)"
  define auth' where "auth' = auth\<lparr>sessions := splice_array k 1 (sessions auth)\<rparr>"
  from authenticate_lists_session [OF assms(1,2)] assms(3)
  have nonempty: "sessions auth \<noteq> []" by auto
  have run: "revokeSession i ctx st =
      (Inr (), ctx\<lparr>ctx_auth := Some auth'\<rparr>, save_auth auth' (delete_session target st))"
    using assms(3-5) by (simp add: revokeSession_def Let_def k_def auth'_def)
  have present: "\<exists>pre x post. sessions auth = pre @ x # post \<and> info_id x = i \<and>
      (\<forall>y \<in> set pre. info_id y \<noteq> i) \<and> sessions auth' = pre @ post"
    if "\<exists>s \<in> set (sessions auth). info_id s = i"
  proof -
    from that findIndex_neg_iff [of "\<lambda>s. info_id s = i" "sessions auth"]
    have "0 \<le> k" by (auto simp: k_def)
    from findIndex_first [OF k_def [symmetric] this] obtain pre x post
      where split: "sessions auth = pre @ x # post" "info_id x = i"
        "\<forall>y \<in> set pre. info_id y \<noteq> i" "nat k = length pre"
      by blast
    from \<open>0 \<le> k\<close> findIndex_less [of "\<lambda>s. info_id s = i" "sessions auth"]
    have "splice_array k 1 (sessions auth) = take (nat k) (sessions auth) @ drop (Suc (nat k)) (sessions auth)"
      by (simp add: splice_array_found k_def)
    with split have "sessions auth' = pre @ post" by (simp add: auth'_def)
    with split show ?thesis by blast
  qed
  have absent: "sessions auth' = butlast (sessions auth)"
    if "\<forall>s \<in> set (sessions auth). info_id s \<noteq> i"
  proof -
    from that have "k = - 1" by (simp add: k_def findIndex_absent)
    then show ?thesis by (simp add: auth'_def splice_array_minus_one)
  qed
  have "length (sessions auth') + 1 = length (sessions auth)"
  proof (cases "\<exists>s \<in> set (sessions auth). info_id s = i")
    case True
    from present [OF this] show ?thesis by auto
  next
    case False
    then have "sessions auth' = butlast (sessions auth)" using absent by blast
    with nonempty show ?thesis by simp
  qed
  with run present absent show ?thesis by blast
qed

theorem revokeSession_splice_witness:
  "map info_id (sessions (the (ctx_auth authenticated_ctx))) = [''s1'', ''s2''] \<and>
   map info_id (sessions (the (ctx_auth
      (fst (snd (revokeSession ''s1'' authenticated_ctx authenticated_store)))))) = [''s2''] \<and>
   map info_id (sessions (the (ctx_auth
      (fst (snd (revokeSession ''s3'' authenticated_ctx authenticated_store)))))) = [''s1'']"
proof -
  have hdr: "req_auth (request_at ''s1'' 0)
      = Some \<lparr> reqauth_session = ''s1'', reqauth_time = 0, reqauth_signature = ''sig'' \<rparr>"
    by (simp add: request_at_def)
  have accepted: "fst (authenticate server0 50 (request_at ''s1'' 0) anonymous_ctx store0) = Inr ()"
    by (simp add: authenticate_def getAuth_def Let_def example_defs)
  then have run: "authenticate server0 50 (request_at ''s1'' 0) anonymous_ctx store0
      = (Inr (), authenticated_ctx, authenticated_store)"
    by (metis authenticated_ctx_def authenticated_store_def prod.collapse)
  from authenticate_lists_session [OF hdr run] obtain account session auth
    where ctx: "requireAuth authenticated_ctx = Inr (account, session, auth)"
    by blast
  have "ctx_account authenticated_ctx = Some alice"
    by (simp add: authenticated_ctx_def authenticate_def getAuth_def Let_def example_defs)
  with ctx have account: "account_id account = ''alice''"
    by (auto dest!: requireAuth_InrD simp: alice_def)
  have ids: "map info_id (sessions (the (ctx_auth authenticated_ctx))) = [''s1'', ''s2'']"
    by (simp add: authenticated_ctx_def authenticate_def getAuth_def Let_def info_def example_defs)
  with ctx have auth: "map info_id (sessions auth) = [''s1'', ''s2'']"
    by (auto dest!: requireAuth_InrD)
  have s1: "\<exists>t. stored_sessions authenticated_store ''s1'' = Some t \<and> session_account t = ''alice''"
    by (simp add: authenticated_store_def authenticate_def getAuth_def Let_def save_auth_def
        save_account_def save_session_def example_defs)
  have s3: "stored_sessions authenticated_store ''s3'' = Some session3 \<and> session_account session3 = ''alice''"
    by (simp add: authenticated_store_def authenticate_def getAuth_def Let_def save_auth_def
        save_account_def save_session_def example_defs)
  from s1 obtain t where t: "stored_sessions authenticated_store ''s1'' = Some t"
    "session_account t = account_id account"
    using account by auto
  from revokeSession_splice [OF hdr run ctx t] obtain auth1 where
    r1: "revokeSession ''s1'' authenticated_ctx authenticated_store =
          (Inr (), authenticated_ctx\<lparr>ctx_auth := Some auth1\<rparr>,
           save_auth auth1 (delete_session t authenticated_store))"
    and p1: "(\<exists>s \<in> set (sessions auth). info_id s = ''s1'') \<longrightarrow>
        (\<exists>pre x post. sessions auth = pre @ x # post \<and> info_id x = ''s1'' \<and>
           (\<forall>y \<in> set pre. info_id y \<noteq> ''s1'') \<and> sessions auth1 = pre @ post)"
    by blast
  from auth obtain a b where ab: "sessions auth = [a, b]" "info_id a = ''s1''" "info_id b = ''s2''"
    by auto
  with p1 obtain pre x post where split: "[a, b] = pre @ x # post" "info_id x = ''s1''"
    "\<forall>y \<in> set pre. info_id y \<noteq> ''s1''" "sessions auth1 = pre @ post"
    by auto
  from split(1,3) ab(2) have "pre = []"
    by (cases pre) auto
  with split ab have "sessions auth1 = [b]"
    by simp
  with ab have first: "map info_id (sessions auth1) = [''s2'']"
    by simp
  from s3 account have t3: "stored_sessions authenticated_store ''s3'' = Some session3"
    "session_account session3 = account_id account"
    by auto
  from revokeSession_splice [OF hdr run ctx t3] obtain auth3 where
    r3: "revokeSession ''s3'' authenticated_ctx authenticated_store =
          (Inr (), authenticated_ctx\<lparr>ctx_auth := Some auth3\<rparr>,
           save_auth auth3 (delete_session session3 authenticated_store))"
    and p3: "(\<forall>s \<in> set (sessions auth). info_id s \<noteq> ''s3'') \<longrightarrow>
        sessions auth3 = butlast (sessions auth)"
    by blast
  from p3 ab have last: "map info_id (sessions auth3) = [''s1'']"
    by auto
  from ids first last r1 r3 show ?thesis by simp
qed

section \<open>Starting an auth request from a trusted device\<close>

lemma createAdHocAuthenticator_calls:
  "createAdHocAuthenticator srv auth ps type = (r, calls) \<Longrightarrow>
     \<forall>c \<in> set calls. \<exists>a. c = CallInitAuthenticator a"
  by (auto simp: createAdHocAuthenticator_def Let_def split: option.splits sum.splits)

lemma adHocAuthenticators_calls:
  "adHocAuthenticators srv auth ps types = (r, calls) \<Longrightarrow>
     \<forall>c \<in> set calls. \<exists>a. c = CallInitAuthenticator a"
proof (induction types arbitrary: r calls)
  case Nil
  then show ?case by simp
next
  case (Cons type types)
  obtain r1 calls1 where one: "createAdHocAuthenticator srv auth ps type = (r1, calls1)"
    by (cases "createAdHocAuthenticator srv auth ps type")
  obtain r2 calls2 where rest: "adHocAuthenticators srv auth ps types = (r2, calls2)"
    by (cases "adHocAuthenticators srv auth ps types")
  from Cons.prems one rest have "set calls \<subseteq> set calls1 \<union> set calls2"
    by (auto split: sum.splits)
  with createAdHocAuthenticator_calls [OF one] Cons.IH [OF rest] show ?case
    by blast
qed

lemma getAuthenticators_calls:
  "getAuthenticators srv auth = (r, calls) \<Longrightarrow>
     \<forall>c \<in> set calls. \<exists>a. c = CallInitAuthenticator a"
  by (auto simp: getAuthenticators_def Let_def split: prod.splits sum.splits
      dest!: adHocAuthenticators_calls)

lemma new_AuthRequest_fields:
  "request_id (new_AuthRequest r t a ty pu d) = r"
  "request_token (new_AuthRequest r t a ty pu d) = t"
  "request_type (new_AuthRequest r t a ty pu d) = ty"
  "request_purpose (new_AuthRequest r t a ty pu d) = pu"
  "request_status (new_AuthRequest r t a ty pu d) = Pending"
  "request_verified (new_AuthRequest r t a ty pu d) = None"
  by (simp_all add: new_AuthRequest_def)

text \<open>
  C6, as amended. Take a \<^verbatim>\<open>startAuthRequest\<close> call with purpose \<open>Login\<close> from a device on
  the trusted-device list of the Auth record, in which an authenticator is selected and
  the provider's \<^verbatim>\<open>initAuthRequest\<close> succeeds. If the account status of the record is
  \<open>Active\<close>, the new request is saved as a \<open>Login\<close> request that is \<open>Verified\<close> at the
  time of the call, and the response carries the status \<open>Verified\<close>, the account status
  and the account part of the provisioning. If the account status is anything else,
  the request is saved as a \<open>Signup\<close> request and stays \<open>Pending\<close>, and the response
  carries neither account status nor provisioning. In both cases the provider is
  invoked, through \<^verbatim>\<open>initAuthRequest\<close> for the new request (and \<^verbatim>\<open>initAuthenticator\<close> for
  the ad hoc authenticators); what is never invoked is its \<^verbatim>\<open>verifyAuthRequest\<close>.
\<close>

theorem startAuthRequest_trusted_login:
  assumes "sar_purpose p = Login"
    and "ctx_device ctx = Some device"
    and "getAuth srv (sar_email p) st = (auth, st1)"
    and "device_id device \<in> device_id ` set (trustedDevices auth)"
    and "startAuthRequest srv rid token now p ctx st = (Inr resp, calls, st')"
  shows "(accountStatus auth = AccountActive \<longrightarrow>
            resp_requestStatus resp = Verified \<and>
            resp_accountStatus resp = Some AccountActive \<and>
            (\<exists>auth' request.
               stored_auths st' (auth_id auth) = Some auth' \<and>
               resp_provisioning resp = Some (prov_account (getProvisioning srv auth')) \<and>
               authRequests auth' = authRequests auth @ [request] \<and>
               request_id request = rid \<and> request_purpose request = Login \<and>
               request_status request = Verified \<and> request_verified request = Some now)) \<and>
         (accountStatus auth \<noteq> AccountActive \<longrightarrow>
            resp_requestStatus resp = Pending \<and>
            resp_accountStatus resp = None \<and> resp_provisioning resp = None \<and>
            (\<exists>auth' request.
               stored_auths st' (auth_id auth) = Some auth' \<and>
               authRequests auth' = authRequests auth @ [request] \<and>
               request_id request = rid \<and> request_purpose request = Signup \<and>
               request_status request = Pending \<and> request_verified request = None)) \<and>
         (\<forall>a r. CallVerifyAuthRequest a r \<notin> set calls) \<and>
         CallInitAuthRequest (resp_authenticatorId resp) rid \<in> set calls"
proof -
  define idx where "idx = (case sar_authenticatorIndex p of None \<Rightarrow> 0 | Some i \<Rightarrow> i)"
  define purpose where
    "purpose = (if sar_purpose p = Login \<and> accountStatus auth \<noteq> AccountActive
                then Signup else sar_purpose p)"
  obtain r0 calls0 where ga: "getAuthenticators srv auth = (r0, calls0)"
    by (cases "getAuthenticators srv auth")
  with assms(3,5) obtain ms where ms: "getAuthenticators srv auth = (Inr ms, calls0)"
    by (cases r0) (auto simp: startAuthRequest_def)
  with assms(3,5) obtain k authenticator where
    pick: "at_index (availableAuthenticators p auth ms) idx = Some (k, authenticator)"
    by (cases "at_index (availableAuthenticators p auth ms) idx")
      (auto simp: startAuthRequest_def idx_def)
  with assms(3,5) ms obtain provider where
    provider: "getAuthServer srv (authenticator_type authenticator) = Some provider"
    by (cases "getAuthServer srv (authenticator_type authenticator)")
      (auto simp: startAuthRequest_def idx_def)
  define request where
    "request = new_AuthRequest rid token (authenticator_id authenticator)
       (authenticator_type authenticator) purpose (ctx_device ctx)"
  from assms(1,2,3,5) ms pick provider obtain responseData where
    init: "initAuthRequest provider authenticator request (sar_data p) = Inr responseData"
    by (cases "initAuthRequest provider authenticator request (sar_data p)")
      (auto simp: startAuthRequest_def idx_def request_def purpose_def Let_def)
  have trusted: "list_ex (\<lambda>d. device_id d = device_id device) (trustedDevices auth)"
    using assms(4) by (auto simp: list_ex_iff)
  have no_verify: "\<forall>a r. CallVerifyAuthRequest a r \<notin> set calls0"
    using getAuthenticators_calls [OF ms] by auto
  define auth1 where
    "auth1 = (if k < length (authenticators auth)
              then auth\<lparr>authenticators :=
                     (authenticators auth)[k := authenticator\<lparr>authenticator_lastUsed := Some now\<rparr>]\<rparr>
              else auth)"
  have auth1: "auth_id auth1 = auth_id auth" "authRequests auth1 = authRequests auth"
    "accountStatus auth1 = accountStatus auth"
    by (simp_all add: auth1_def)
  have fields: "request_id request = rid" "request_status request = Pending"
    "request_verified request = None" "request_purpose request = purpose"
    by (simp_all add: request_def new_AuthRequest_fields)
  define request' where
    "request' = request\<lparr>request_verified := Some now, request_status := Verified\<rparr>"
  define verified where
    "verified = auth1\<lparr>authRequests := authRequests auth1 @ [request']\<rparr>"
  define pending where
    "pending = auth1\<lparr>authRequests := authRequests auth1 @ [request]\<rparr>"
  have stored_verified: "stored_auths (save_auth verified st1) (auth_id auth) = Some verified"
    by (simp add: save_auth_def verified_def auth1)
  have stored_pending: "stored_auths (save_auth pending st1) (auth_id auth) = Some pending"
    by (simp add: save_auth_def pending_def auth1)
  note known = assms(1,2,3) ms pick [unfolded idx_def] provider trusted
  show ?thesis
  proof (cases "accountStatus auth = AccountActive")
    case True
    with assms(1) have purpose: "purpose = Login" by (simp add: purpose_def)
    from init have init': "initAuthRequest provider authenticator
        (new_AuthRequest rid token (authenticator_id authenticator)
           (authenticator_type authenticator) Login (Some device)) (sar_data p) = Inr responseData"
      by (simp add: request_def purpose assms(2))
    have "startAuthRequest srv rid token now p ctx st =
        (Inr \<lparr> resp_id = rid, resp_data = responseData, resp_token = token,
               resp_type = authenticator_type authenticator,
               resp_authenticatorId = authenticator_id authenticator,
               resp_requestStatus = Verified, resp_deviceTrusted = True,
               resp_accountStatus = Some AccountActive,
               resp_provisioning = Some (prov_account (getProvisioning srv verified)) \<rparr>,
         calls0 @ [CallInitAuthRequest (authenticator_id authenticator) rid],
         save_auth verified st1)"
      using True
      by (simp add: startAuthRequest_def known init' new_AuthRequest_fields Let_def
          verified_def request'_def request_def purpose auth1_def)
    with assms(5) have result:
      "resp = \<lparr> resp_id = rid, resp_data = responseData, resp_token = token,
               resp_type = authenticator_type authenticator,
               resp_authenticatorId = authenticator_id authenticator,
               resp_requestStatus = Verified, resp_deviceTrusted = True,
               resp_accountStatus = Some AccountActive,
               resp_provisioning = Some (prov_account (getProvisioning srv verified)) \<rparr>"
      "calls = calls0 @ [CallInitAuthRequest (authenticator_id authenticator) rid]"
      "st' = save_auth verified st1"
      by simp_all
    have "stored_auths st' (auth_id auth) = Some verified \<and>
        resp_provisioning resp = Some (prov_account (getProvisioning srv verified)) \<and>
        authRequests verified = authRequests auth @ [request'] \<and>
        request_id request' = rid \<and> request_purpose request' = Login \<and>
        request_status request' = Verified \<and> request_verified request' = Some now"
      using result stored_verified fields purpose
      by (simp add: verified_def auth1 request'_def)
    then have "\<exists>auth' request.
        stored_auths st' (auth_id auth) = Some auth' \<and>
        resp_provisioning resp = Some (prov_account (getProvisioning srv auth')) \<and>
        authRequests auth' = authRequests auth @ [request] \<and>
        request_id request = rid \<and> request_purpose request = Login \<and>
        request_status request = Verified \<and> request_verified request = Some now"
      by blast
    moreover have "resp_requestStatus resp = Verified \<and> resp_accountStatus resp = Some AccountActive"
      using result by simp
    moreover have "CallInitAuthRequest (resp_authenticatorId resp) rid \<in> set calls"
      using result by simp
    moreover have "\<forall>a r. CallVerifyAuthRequest a r \<notin> set calls"
      using result no_verify by simp
    ultimately show ?thesis using True by blast
  next
    case False
    with assms(1) have purpose: "purpose = Signup" by (simp add: purpose_def)
    from init have init': "initAuthRequest provider authenticator
        (new_AuthRequest rid token (authenticator_id authenticator)
           (authenticator_type authenticator) Signup (Some device)) (sar_data p) = Inr responseData"
      by (simp add: request_def purpose assms(2))
    have "startAuthRequest srv rid token now p ctx st =
        (Inr \<lparr> resp_id = rid, resp_data = responseData, resp_token = token,
               resp_type = authenticator_type authenticator,
               resp_authenticatorId = authenticator_id authenticator,
               resp_requestStatus = Pending, resp_deviceTrusted = True,
               resp_accountStatus = None, resp_provisioning = None \<rparr>,
         calls0 @ [CallInitAuthRequest (authenticator_id authenticator) rid],
         save_auth pending st1)"
      using False
      by (simp add: startAuthRequest_def known init' new_AuthRequest_fields Let_def
          pending_def request_def purpose auth1_def)
    with assms(5) have result:
      "resp = \<lparr> resp_id = rid, resp_data = responseData, resp_token = token,
               resp_type = authenticator_type authenticator,
               resp_authenticatorId = authenticator_id authenticator,
               resp_requestStatus = Pending, resp_deviceTrusted = True,
               resp_accountStatus = None, resp_provisioning = None \<rparr>"
      "calls = calls0 @ [CallInitAuthRequest (authenticator_id authenticator) rid]"
      "st' = save_auth pending st1"
      by simp_all
    have "stored_auths st' (auth_id auth) = Some pending \<and>
        authRequests pending = authRequests auth @ [request] \<and>
        request_id request = rid \<and> request_purpose request = Signup \<and>
        request_status request = Pending \<and> request_verified request = None"
      using result stored_pending fields purpose
      by (simp add: pending_def auth1)
    then have "\<exists>auth' request.
        stored_auths st' (auth_id auth) = Some auth' \<and>
        authRequests auth' = authRequests auth @ [request] \<and>
        request_id request = rid \<and> request_purpose request = Signup \<and>
        request_status request = Pending \<and> request_verified request = None"
      by blast
    moreover have "resp_requestStatus resp = Pending \<and> resp_accountStatus resp = None \<and>
        resp_provisioning resp = None"
      using result by simp
    moreover have "CallInitAuthRequest (resp_authenticatorId resp) rid \<in> set calls"
      using result by simp
    moreover have "\<forall>a r. CallVerifyAuthRequest a r \<notin> set calls"
      using result no_verify by simp
    ultimately show ?thesis using False by blast
  qed
qed

lemma alice_login_response:
  "fst (startAuthRequest server0 ''r1'' ''t1'' 50 login_params alice_ctx store0) =
     Inr \<lparr> resp_id = ''r1'', resp_data = ''code sent'', resp_token = ''t1'', resp_type = ''email'',
           resp_authenticatorId = ''a1'', resp_requestStatus = Verified,
           resp_deviceTrusted = True, resp_accountStatus = Some AccountActive,
           resp_provisioning = Some \<lparr> accprov_status = ProvisioningActive, accprov_quota_orgs = 1 \<rparr> \<rparr>"
  by (simp add: startAuthRequest_def getAuth_def getAuthenticators_def createAdHocAuthenticator_def
      getAuthServer_def availableAuthenticators_def selectable_def at_index_def indexOf_def
      new_AuthRequest_def Let_def login_params_def example_defs)

lemma alice_login_calls:
  "fst (snd (startAuthRequest server0 ''r1'' ''t1'' 50 login_params alice_ctx store0)) =
     [CallInitAuthenticator ''ad_hoc_alice@x.com_email'', CallInitAuthRequest ''a1'' ''r1'']"
  by (simp add: startAuthRequest_def getAuth_def getAuthenticators_def createAdHocAuthenticator_def
      getAuthServer_def availableAuthenticators_def selectable_def at_index_def indexOf_def
      new_AuthRequest_def Let_def login_params_def example_defs)

lemma bob_login_response:
  "fst (startAuthRequest server0 ''r1'' ''t1'' 50 bob_login bob_ctx store0) =
     Inr \<lparr> resp_id = ''r1'', resp_data = ''code sent'', resp_token = ''t1'', resp_type = ''email'',
           resp_authenticatorId = ''a1'', resp_requestStatus = Pending,
           resp_deviceTrusted = True, resp_accountStatus = None, resp_provisioning = None \<rparr>"
  by (simp add: startAuthRequest_def getAuth_def getAuthenticators_def createAdHocAuthenticator_def
      getAuthServer_def availableAuthenticators_def selectable_def at_index_def indexOf_def
      new_AuthRequest_def Let_def login_params_def bob_login_def example_defs)

lemma bob_login_calls:
  "fst (snd (startAuthRequest server0 ''r1'' ''t1'' 50 bob_login bob_ctx store0)) =
     [CallInitAuthenticator ''ad_hoc_bob@x.com_email'', CallInitAuthRequest ''a1'' ''r1'']"
  by (simp add: startAuthRequest_def getAuth_def getAuthenticators_def createAdHocAuthenticator_def
      getAuthServer_def availableAuthenticators_def selectable_def at_index_def indexOf_def
      new_AuthRequest_def Let_def login_params_def bob_login_def example_defs)

theorem startAuthRequest_trusted_login_witness:
  "(\<exists>resp calls st'.
      startAuthRequest server0 ''r1'' ''t1'' 50 login_params alice_ctx store0 = (Inr resp, calls, st') \<and>
      accountStatus alice_auth = AccountActive \<and>
      resp_requestStatus resp = Verified \<and> resp_accountStatus resp = Some AccountActive \<and>
      CallInitAuthRequest (resp_authenticatorId resp) ''r1'' \<in> set calls) \<and>
   (\<exists>resp calls st'.
      startAuthRequest server0 ''r1'' ''t1'' 50 bob_login bob_ctx store0 = (Inr resp, calls, st') \<and>
      accountStatus bob_auth \<noteq> AccountActive \<and>
      resp_requestStatus resp = Pending \<and> resp_provisioning resp = None)"
proof -
  let ?alice = "startAuthRequest server0 ''r1'' ''t1'' 50 login_params alice_ctx store0"
  let ?bob = "startAuthRequest server0 ''r1'' ''t1'' 50 bob_login bob_ctx store0"
  obtain resp_a where run_a: "?alice = (Inr resp_a, fst (snd ?alice), snd (snd ?alice))"
    using alice_login_response by (metis prod.collapse)
  obtain resp_b where run_b: "?bob = (Inr resp_b, fst (snd ?bob), snd (snd ?bob))"
    using bob_login_response by (metis prod.collapse)
  have purpose: "sar_purpose login_params = Login" "sar_purpose bob_login = Login"
    by (simp_all add: login_params_def bob_login_def)
  have device: "ctx_device alice_ctx = Some device1" "ctx_device bob_ctx = Some device1"
    by (simp_all add: alice_ctx_def bob_ctx_def)
  have auth_a: "getAuth server0 (sar_email login_params) store0 = (alice_auth, store0)"
    by (simp add: getAuth_def login_params_def server0_def store0_def)
  have auth_b: "getAuth server0 (sar_email bob_login) store0 = (bob_auth, store0)"
    by (simp add: getAuth_def login_params_def bob_login_def server0_def store0_def)
  have trusted: "device_id device1 \<in> device_id ` set (trustedDevices alice_auth)"
    "device_id device1 \<in> device_id ` set (trustedDevices bob_auth)"
    by (simp_all add: alice_auth_def bob_auth_def)
  have status: "accountStatus alice_auth = AccountActive" "accountStatus bob_auth \<noteq> AccountActive"
    by (simp_all add: alice_auth_def bob_auth_def)
  from startAuthRequest_trusted_login [OF purpose(1) device(1) auth_a trusted(1) run_a] status(1)
  have "resp_requestStatus resp_a = Verified \<and> resp_accountStatus resp_a = Some AccountActive \<and>
      CallInitAuthRequest (resp_authenticatorId resp_a) ''r1'' \<in> set (fst (snd ?alice))"
    by blast
  with run_a status(1) have first: "\<exists>resp calls st'. ?alice = (Inr resp, calls, st') \<and>
      accountStatus alice_auth = AccountActive \<and>
      resp_requestStatus resp = Verified \<and> resp_accountStatus resp = Some AccountActive \<and>
      CallInitAuthRequest (resp_authenticatorId resp) ''r1'' \<in> set calls"
    by blast
  from startAuthRequest_trusted_login [OF purpose(2) device(2) auth_b trusted(2) run_b] status(2)
  have "resp_requestStatus resp_b = Pending \<and> resp_provisioning resp_b = None"
    by blast
  with run_b status(2) have second: "\<exists>resp calls st'. ?bob = (Inr resp, calls, st') \<and>
      accountStatus bob_auth \<noteq> AccountActive \<and>
      resp_requestStatus resp = Pending \<and> resp_provisioning resp = None"
    by blast
  from first second show ?thesis by blast
qed

text \<open>The claim as stated fails twice over. Bob's account is suspended and his device is
  trusted: his \<open>Login\<close> request is turned into a \<open>Signup\<close> request and the response says
  \<open>Pending\<close>, with no provisioning attached. And for Alice, whose request is verified on
  the spot, the provider has been invoked all the same: once to initialise the ad hoc
  email authenticator and once to initialise the request.\<close>

theorem startAuthRequest_trusted_login_counterexample:
  "sar_purpose bob_login = Login \<and>
   ctx_device bob_ctx = Some device1 \<and>
   getAuth server0 (sar_email bob_login) store0 = (bob_auth, store0) \<and>
   device1 \<in> set (trustedDevices bob_auth) \<and>
   fst (startAuthRequest server0 ''r1'' ''t1'' 50 bob_login bob_ctx store0) =
     Inr \<lparr> resp_id = ''r1'', resp_data = ''code sent'', resp_token = ''t1'', resp_type = ''email'',
           resp_authenticatorId = ''a1'', resp_requestStatus = Pending,
           resp_deviceTrusted = True, resp_accountStatus = None, resp_provisioning = None \<rparr> \<and>
   sar_purpose login_params = Login \<and>
   device1 \<in> set (trustedDevices alice_auth) \<and>
   fst (snd (startAuthRequest server0 ''r1'' ''t1'' 50 login_params alice_ctx store0)) =
     [CallInitAuthenticator ''ad_hoc_alice@x.com_email'', CallInitAuthRequest ''a1'' ''r1'']"
  using bob_login_response alice_login_calls
  by (simp add: getAuth_def login_params_def bob_login_def server0_def store0_def bob_ctx_def
      bob_auth_def alice_auth_def)

section \<open>Selecting an authenticator\<close>

lemma availableAuthenticators_iff:
  "(k, m) \<in> set (availableAuthenticators p auth ms) \<longleftrightarrow>
     k < length ms \<and> ms ! k = m \<and> selectable p m"
  by (auto simp: availableAuthenticators_def in_set_enumerate_eq)

lemma selectable_iff:
  "selectable p m \<longleftrightarrow>
     (\<forall>i. sar_authenticatorId p = Some i \<longrightarrow> authenticator_id m = i) \<and>
     (\<forall>t. sar_type p = Some t \<longrightarrow> authenticator_type m = t) \<and>
     (\<forall>ts. sar_supportedTypes p = Some ts \<longrightarrow> authenticator_type m \<in> set ts) \<and>
     authenticator_status m = AuthenticatorActive \<and>
     (sar_purpose p = TestAuthenticator \<or> sar_purpose p \<in> set (purposes m))"
  by (auto simp: selectable_def split: option.splits)

lemma availableAuthenticators_index:
  "availableAuthenticators (p\<lparr>sar_authenticatorIndex := i\<rparr>) auth ms = availableAuthenticators p auth ms"
  by (simp add: availableAuthenticators_def selectable_def)

lemma at_index_mem: "at_index xs i = Some x \<Longrightarrow> x \<in> set xs"
  by (auto simp: at_index_def split: if_splits)

lemma mem_at_index: "x \<in> set xs \<Longrightarrow> \<exists>i. at_index xs i = Some x"
proof -
  assume "x \<in> set xs"
  then obtain n where "n < length xs" "xs ! n = x"
    by (auto simp: in_set_conv_nth)
  then have "at_index xs (int n) = Some x"
    by (simp add: at_index_def)
  then show ?thesis by blast
qed

text \<open>The provider calls of a \<^verbatim>\<open>startAuthRequest\<close> that has picked the authenticator \<open>m\<close>
  and found its provider: those made for the ad hoc authenticators, then the
  \<^verbatim>\<open>initAuthRequest\<close> for \<open>m\<close>, whether it succeeds or throws.\<close>

lemma startAuthRequest_picked_calls:
  assumes "getAuth srv (sar_email p) st = (auth, st1)"
    and "getAuthenticators srv auth = (Inr ms, calls0)"
    and "at_index (availableAuthenticators p auth ms)
           (case sar_authenticatorIndex p of None \<Rightarrow> 0 | Some i \<Rightarrow> i) = Some (k, m)"
    and "getAuthServer srv (authenticator_type m) = Some provider"
  shows "fst (snd (startAuthRequest srv rid token now p ctx st)) =
           calls0 @ [CallInitAuthRequest (authenticator_id m) rid]"
  using assms
  by (simp add: startAuthRequest_def Let_def new_AuthRequest_fields split: sum.splits)

text \<open>The response of a \<^verbatim>\<open>startAuthRequest\<close> that succeeds names the authenticator that
  was picked from the available ones.\<close>

lemma startAuthRequest_picked_response:
  assumes "getAuth srv (sar_email p) st = (auth, st1)"
    and "getAuthenticators srv auth = (Inr ms, calls0)"
    and "startAuthRequest srv rid token now p ctx st = (Inr resp, calls, st')"
  shows "\<exists>k m. at_index (availableAuthenticators p auth ms)
                  (case sar_authenticatorIndex p of None \<Rightarrow> 0 | Some i \<Rightarrow> i) = Some (k, m) \<and>
               resp_authenticatorId resp = authenticator_id m \<and>
               resp_type resp = authenticator_type m"
proof -
  define idx where "idx = (case sar_authenticatorIndex p of None \<Rightarrow> 0 | Some i \<Rightarrow> i)"
  from assms obtain k m where
    pick: "at_index (availableAuthenticators p auth ms) idx = Some (k, m)"
    by (cases "at_index (availableAuthenticators p auth ms) idx")
      (auto simp: startAuthRequest_def idx_def)
  with assms obtain provider where
    provider: "getAuthServer srv (authenticator_type m) = Some provider"
    by (cases "getAuthServer srv (authenticator_type m)")
      (auto simp: startAuthRequest_def idx_def)
  define request where
    "request = new_AuthRequest rid token (authenticator_id m) (authenticator_type m)
       (if sar_purpose p = Login \<and> accountStatus auth \<noteq> AccountActive
        then Signup else sar_purpose p)
       (ctx_device ctx)"
  from assms pick provider obtain responseData where
    init: "initAuthRequest provider m request (sar_data p) = Inr responseData"
    by (cases "initAuthRequest provider m request (sar_data p)")
      (auto simp: startAuthRequest_def idx_def request_def Let_def)
  have "map_sum (\<lambda>e. e) (\<lambda>r. (resp_authenticatorId r, resp_type r))
          (fst (startAuthRequest srv rid token now p ctx st))
        = Inr (authenticator_id m, authenticator_type m)"
    using assms(1,2) pick [unfolded idx_def] provider init [unfolded request_def]
    by (simp add: startAuthRequest_def Let_def new_AuthRequest_fields)
  with assms(3) have "resp_authenticatorId resp = authenticator_id m \<and>
      resp_type resp = authenticator_type m"
    by simp
  with pick show ?thesis by (auto simp: idx_def)
qed

text \<open>
  C10. Which authenticators \<^verbatim>\<open>startAuthRequest\<close> selects among those
  \<^verbatim>\<open>_getAuthenticators\<close> returns. Whenever the call succeeds, the authenticator named in
  the response is one that passes the id, type and supported-types filters, is active
  and, unless the requested purpose is \<open>TestAuthenticator\<close>, lists the requested
  purpose. Conversely every authenticator that passes the id, type and supported-types
  filters, is active, has a provider and either lists the requested purpose or is asked
  for with purpose \<open>TestAuthenticator\<close>, whatever its purposes, is selected for some
  index: the call goes on to \<^verbatim>\<open>initAuthRequest\<close> for that authenticator.
\<close>

theorem startAuthRequest_purposes_filter:
  assumes "getAuth srv (sar_email p) st = (auth, st1)"
    and "getAuthenticators srv auth = (Inr ms, calls0)"
  shows "(\<forall>resp calls st'.
            startAuthRequest srv rid token now p ctx st = (Inr resp, calls, st') \<longrightarrow>
            (\<exists>k m. k < length ms \<and> ms ! k = m \<and>
               resp_authenticatorId resp = authenticator_id m \<and>
               resp_type resp = authenticator_type m \<and>
               (\<forall>i. sar_authenticatorId p = Some i \<longrightarrow> authenticator_id m = i) \<and>
               (\<forall>t. sar_type p = Some t \<longrightarrow> authenticator_type m = t) \<and>
               (\<forall>ts. sar_supportedTypes p = Some ts \<longrightarrow> authenticator_type m \<in> set ts) \<and>
               authenticator_status m = AuthenticatorActive \<and>
               (sar_purpose p = TestAuthenticator \<or> sar_purpose p \<in> set (purposes m)))) \<and>
         (\<forall>k m.
            k < length ms \<and> ms ! k = m \<and>
            (\<forall>i. sar_authenticatorId p = Some i \<longrightarrow> authenticator_id m = i) \<and>
            (\<forall>t. sar_type p = Some t \<longrightarrow> authenticator_type m = t) \<and>
            (\<forall>ts. sar_supportedTypes p = Some ts \<longrightarrow> authenticator_type m \<in> set ts) \<and>
            authenticator_status m = AuthenticatorActive \<and>
            (sar_purpose p = TestAuthenticator \<or> sar_purpose p \<in> set (purposes m)) \<and>
            getAuthServer srv (authenticator_type m) \<noteq> None \<longrightarrow>
            (\<exists>i. fst (snd (startAuthRequest srv rid token now
                             (p\<lparr>sar_authenticatorIndex := Some i\<rparr>) ctx st)) =
                    calls0 @ [CallInitAuthRequest (authenticator_id m) rid]))"
proof (intro conjI allI impI)
  fix resp calls st'
  assume "startAuthRequest srv rid token now p ctx st = (Inr resp, calls, st')"
  from startAuthRequest_picked_response [OF assms this] obtain k m where
    pick: "at_index (availableAuthenticators p auth ms)
             (case sar_authenticatorIndex p of None \<Rightarrow> 0 | Some i \<Rightarrow> i) = Some (k, m)"
    and resp: "resp_authenticatorId resp = authenticator_id m" "resp_type resp = authenticator_type m"
    by blast
  from at_index_mem [OF pick] have "k < length ms \<and> ms ! k = m \<and> selectable p m"
    by (simp add: availableAuthenticators_iff)
  with resp show "\<exists>k m. k < length ms \<and> ms ! k = m \<and>
      resp_authenticatorId resp = authenticator_id m \<and>
      resp_type resp = authenticator_type m \<and>
      (\<forall>i. sar_authenticatorId p = Some i \<longrightarrow> authenticator_id m = i) \<and>
      (\<forall>t. sar_type p = Some t \<longrightarrow> authenticator_type m = t) \<and>
      (\<forall>ts. sar_supportedTypes p = Some ts \<longrightarrow> authenticator_type m \<in> set ts) \<and>
      authenticator_status m = AuthenticatorActive \<and>
      (sar_purpose p = TestAuthenticator \<or> sar_purpose p \<in> set (purposes m))"
    unfolding selectable_iff by blast
next
  fix k m
  assume hyp: "k < length ms \<and> ms ! k = m \<and>
    (\<forall>i. sar_authenticatorId p = Some i \<longrightarrow> authenticator_id m = i) \<and>
    (\<forall>t. sar_type p = Some t \<longrightarrow> authenticator_type m = t) \<and>
    (\<forall>ts. sar_supportedTypes p = Some ts \<longrightarrow> authenticator_type m \<in> set ts) \<and>
    authenticator_status m = AuthenticatorActive \<and>
    (sar_purpose p = TestAuthenticator \<or> sar_purpose p \<in> set (purposes m)) \<and>
    getAuthServer srv (authenticator_type m) \<noteq> None"
  then have "selectable p m" unfolding selectable_iff by blast
  with hyp have "(k, m) \<in> set (availableAuthenticators p auth ms)"
    by (simp add: availableAuthenticators_iff)
  from mem_at_index [OF this] obtain i where
    i: "at_index (availableAuthenticators p auth ms) i = Some (k, m)"
    by blast
  from hyp obtain provider where provider: "getAuthServer srv (authenticator_type m) = Some provider"
    by auto
  let ?p = "p\<lparr>sar_authenticatorIndex := Some i\<rparr>"
  have "fst (snd (startAuthRequest srv rid token now ?p ctx st)) =
      calls0 @ [CallInitAuthRequest (authenticator_id m) rid]"
  proof (rule startAuthRequest_picked_calls)
    show "getAuth srv (sar_email ?p) st = (auth, st1)"
      using assms(1) by simp
    show "getAuthenticators srv auth = (Inr ms, calls0)"
      by (fact assms(2))
    show "at_index (availableAuthenticators ?p auth ms)
        (case sar_authenticatorIndex ?p of None \<Rightarrow> 0 | Some i \<Rightarrow> i) = Some (k, m)"
      using i by (simp add: availableAuthenticators_index)
    show "getAuthServer srv (authenticator_type m) = Some provider"
      by (fact provider)
  qed
  then show "\<exists>i. fst (snd (startAuthRequest srv rid token now
                             (p\<lparr>sar_authenticatorIndex := Some i\<rparr>) ctx st)) =
                    calls0 @ [CallInitAuthRequest (authenticator_id m) rid]"
    by blast
qed

lemma alice_authenticators:
  "getAuthenticators server0 alice_auth =
     (Inr [email_authenticator, keystore_authenticator, adhoc_alice],
      [CallInitAuthenticator ''ad_hoc_alice@x.com_email''])"
  by (simp add: getAuthenticators_def createAdHocAuthenticator_def getAuthServer_def Let_def
      adhoc_alice_def example_defs)

theorem startAuthRequest_purposes_filter_witness:
  "(\<exists>m. resp_authenticatorId
           (projr (fst (startAuthRequest server0 ''r1'' ''t1'' 50 login_params alice_ctx store0)))
         = authenticator_id m \<and>
        m \<in> set [email_authenticator, keystore_authenticator, adhoc_alice] \<and>
        sar_purpose login_params \<in> set (purposes m)) \<and>
   TestAuthenticator \<notin> set (purposes keystore_authenticator) \<and>
   (\<exists>i. fst (snd (startAuthRequest server0 ''r1'' ''t1'' 50
                    (test_params\<lparr>sar_authenticatorIndex := Some i\<rparr>) alice_ctx store0)) =
           [CallInitAuthenticator ''ad_hoc_alice@x.com_email'', CallInitAuthRequest ''a2'' ''r1''])"
proof -
  let ?run = "startAuthRequest server0 ''r1'' ''t1'' 50 login_params alice_ctx store0"
  have auth_login: "getAuth server0 (sar_email login_params) store0 = (alice_auth, store0)"
    by (simp add: getAuth_def login_params_def server0_def store0_def)
  have auth_test: "getAuth server0 (sar_email test_params) store0 = (alice_auth, store0)"
    by (simp add: getAuth_def login_params_def test_params_def server0_def store0_def)
  obtain resp where run: "?run = (Inr resp, fst (snd ?run), snd (snd ?run))"
    using alice_login_response by (metis prod.collapse)
  have not_test: "sar_purpose login_params \<noteq> TestAuthenticator"
    by (simp add: login_params_def)
  from startAuthRequest_purposes_filter
    [OF auth_login alice_authenticators, of "''r1''" "''t1''" 50 alice_ctx] run not_test
  obtain k m where
    "k < length [email_authenticator, keystore_authenticator, adhoc_alice]"
    "[email_authenticator, keystore_authenticator, adhoc_alice] ! k = m"
    "resp_authenticatorId resp = authenticator_id m"
    "sar_purpose login_params \<in> set (purposes m)"
    by blast
  then have first: "\<exists>m. resp_authenticatorId (projr (fst ?run)) = authenticator_id m \<and>
      m \<in> set [email_authenticator, keystore_authenticator, adhoc_alice] \<and>
      sar_purpose login_params \<in> set (purposes m)"
    using run by (metis fst_conv nth_mem sum.sel(2))
  have keystore: "(1::nat) < length [email_authenticator, keystore_authenticator, adhoc_alice] \<and>
      [email_authenticator, keystore_authenticator, adhoc_alice] ! 1 = keystore_authenticator \<and>
      (\<forall>i. sar_authenticatorId test_params = Some i \<longrightarrow> authenticator_id keystore_authenticator = i) \<and>
      (\<forall>t. sar_type test_params = Some t \<longrightarrow> authenticator_type keystore_authenticator = t) \<and>
      (\<forall>ts. sar_supportedTypes test_params = Some ts \<longrightarrow>
         authenticator_type keystore_authenticator \<in> set ts) \<and>
      authenticator_status keystore_authenticator = AuthenticatorActive \<and>
      (sar_purpose test_params = TestAuthenticator \<or>
       sar_purpose test_params \<in> set (purposes keystore_authenticator)) \<and>
      getAuthServer server0 (authenticator_type keystore_authenticator) \<noteq> None"
    by (simp add: test_params_def login_params_def keystore_authenticator_def getAuthServer_def
        server0_def email_provider_def)
  from startAuthRequest_purposes_filter
    [OF auth_test alice_authenticators, of "''r1''" "''t1''" 50 alice_ctx] keystore
  have "\<exists>i. fst (snd (startAuthRequest server0 ''r1'' ''t1'' 50
                    (test_params\<lparr>sar_authenticatorIndex := Some i\<rparr>) alice_ctx store0)) =
           [CallInitAuthenticator ''ad_hoc_alice@x.com_email''] @
           [CallInitAuthRequest (authenticator_id keystore_authenticator) ''r1'']"
    by blast
  then have second: "\<exists>i. fst (snd (startAuthRequest server0 ''r1'' ''t1'' 50
                    (test_params\<lparr>sar_authenticatorIndex := Some i\<rparr>) alice_ctx store0)) =
           [CallInitAuthenticator ''ad_hoc_alice@x.com_email'', CallInitAuthRequest ''a2'' ''r1'']"
    by (simp add: keystore_authenticator_def)
  have "TestAuthenticator \<notin> set (purposes keystore_authenticator)"
    by (simp add: keystore_authenticator_def)
  with first second show ?thesis by blast
qed

section \<open>Revision checks\<close>

text \<open>When \<^verbatim>\<open>authenticate\<close> has accepted a signed request, the account in the context is
  the account as the storage holds it under its id.\<close>

lemma authenticate_account_stored:
  assumes "req_auth req = Some h"
    and "authenticate srv now req ctx0 st0 = (Inr (), ctx, st)"
  shows "\<exists>account. ctx_account ctx = Some account \<and>
           stored_accounts st (account_id account) = Some account"
  using assms
  by (auto simp: authenticate_def Let_def save_auth_def save_account_def
      split: option.splits if_splits prod.splits)




section \<open>Updating an organization without being a member\<close>

text \<open>
  C5, as amended. Take an authenticated caller of \<^verbatim>\<open>updateOrg\<close>. When no organization
  is stored under the id, the call fails with \<open>NOT_FOUND\<close>. When the organization is
  stored and the caller is neither a member nor its owner, the call fails with
  \<open>PROVISIONING_NOT_ALLOWED\<close> if the caller's provisioning has no entry for the
  organization or the entry is frozen, otherwise with \<open>OUTDATED_REVISION\<close> if the
  revision is stale, otherwise with \<open>INSUFFICIENT_PERMISSIONS\<close>, hence never with
  \<open>NOT_FOUND\<close>. In each of these cases no message is sent and nothing is changed.
\<close>

theorem updateOrg_non_member:
  assumes "requireAuth ctx = Inr (account, session, auth)"
  shows "(stored_orgs st (org_id p) = None \<longrightarrow>
            updateOrg srv uuid fresh now p ctx st = (Inl NOT_FOUND, [], st)) \<and>
         (\<forall>org. stored_orgs st (org_id p) = Some org \<and>
            \<not> isMember org (account_id account) \<and> org_owner org \<noteq> account_id account \<longrightarrow>
            updateOrg srv uuid fresh now p ctx st =
              (Inl (case find (\<lambda>entry. orgprov_orgId entry = org_id p)
                           (prov_orgs (getProvisioning srv auth)) of
                      None \<Rightarrow> PROVISIONING_NOT_ALLOWED
                    | Some entry \<Rightarrow>
                        if orgprov_status entry = Frozen then PROVISIONING_NOT_ALLOWED
                        else if org_revision p \<noteq> org_revision org then OUTDATED_REVISION
                        else INSUFFICIENT_PERMISSIONS),
               [], st) \<and>
            fst (updateOrg srv uuid fresh now p ctx st) \<noteq> Inl NOT_FOUND)"
proof (intro conjI allI impI)
  assume "stored_orgs st (org_id p) = None"
  with assms show "updateOrg srv uuid fresh now p ctx st = (Inl NOT_FOUND, [], st)"
    by (simp add: updateOrg_def)
next
  fix org
  assume non_member: "stored_orgs st (org_id p) = Some org \<and>
    \<not> isMember org (account_id account) \<and> org_owner org \<noteq> account_id account"
  then have "\<not> isOwner org (account_id account)" "\<not> isAdmin org (account_id account)"
    by (simp_all add: isMember_def isOwner_def isAdmin_def)
  with assms non_member
  show result: "updateOrg srv uuid fresh now p ctx st =
      (Inl (case find (\<lambda>entry. orgprov_orgId entry = org_id p)
                   (prov_orgs (getProvisioning srv auth)) of
              None \<Rightarrow> PROVISIONING_NOT_ALLOWED
            | Some entry \<Rightarrow>
                if orgprov_status entry = Frozen then PROVISIONING_NOT_ALLOWED
                else if org_revision p \<noteq> org_revision org then OUTDATED_REVISION
                else INSUFFICIENT_PERMISSIONS),
       [], st)"
    by (simp add: updateOrg_def split: option.splits)
  then show "fst (updateOrg srv uuid fresh now p ctx st) \<noteq> Inl NOT_FOUND"
    by (simp split: option.splits)
qed

theorem updateOrg_non_member_witness:
  "stored_orgs store0 (org_id acme) = Some acme \<and>
   \<not> isMember acme (account_id bob) \<and> org_owner acme \<noteq> account_id bob \<and>
   updateOrg server0 ''u'' (\<lambda>n. ''f'') 50 acme bob_ctx store0
     = (Inl INSUFFICIENT_PERMISSIONS, [], store0) \<and>
   updateOrg server0 ''u'' (\<lambda>n. ''f'') 50 (acme\<lparr>org_id := ''no such org''\<rparr>) bob_ctx store0
     = (Inl NOT_FOUND, [], store0)"
proof -
  have ctx: "requireAuth bob_ctx = Inr (bob, bob_session, bob_auth)"
    by (simp add: requireAuth_def bob_ctx_def)
  have non_member: "stored_orgs store0 (org_id acme) = Some acme \<and>
      \<not> isMember acme (account_id bob) \<and> org_owner acme \<noteq> account_id bob"
    by (simp add: store0_def acme_def bob_def isMember_def getMember_def)
  have missing: "stored_orgs store0 (org_id (acme\<lparr>org_id := ''no such org''\<rparr>)) = None"
    by (simp add: store0_def)
  from updateOrg_non_member [OF ctx, of store0 acme server0 "''u''" "\<lambda>n. ''f''" 50] non_member
  have "updateOrg server0 ''u'' (\<lambda>n. ''f'') 50 acme bob_ctx store0 =
      (Inl (case find (\<lambda>entry. orgprov_orgId entry = org_id acme)
                  (prov_orgs (getProvisioning server0 bob_auth)) of
             None \<Rightarrow> PROVISIONING_NOT_ALLOWED
           | Some entry \<Rightarrow>
               if orgprov_status entry = Frozen then PROVISIONING_NOT_ALLOWED
               else if org_revision acme \<noteq> org_revision acme then OUTDATED_REVISION
               else INSUFFICIENT_PERMISSIONS),
       [], store0)"
    by blast
  then have a: "updateOrg server0 ''u'' (\<lambda>n. ''f'') 50 acme bob_ctx store0
      = (Inl INSUFFICIENT_PERMISSIONS, [], store0)"
    by (simp add: server0_def provisioning0_def acme_def)
  from updateOrg_non_member
    [OF ctx, of store0 "acme\<lparr>org_id := ''no such org''\<rparr>" server0 "''u''" "\<lambda>n. ''f''" 50] missing
  have b: "updateOrg server0 ''u'' (\<lambda>n. ''f'') 50 (acme\<lparr>org_id := ''no such org''\<rparr>) bob_ctx store0
      = (Inl NOT_FOUND, [], store0)"
    by blast
  from non_member a b show ?thesis by simp
qed

text \<open>The claim as stated fails: Bob, who is neither a member nor the owner of Acme,
  is told \<open>INSUFFICIENT_PERMISSIONS\<close> when his provisioning lists Acme, and
  \<open>PROVISIONING_NOT_ALLOWED\<close> when it does not; in neither case \<open>NOT_FOUND\<close>.\<close>

theorem updateOrg_non_member_counterexample:
  "stored_orgs store0 (org_id acme) = Some acme \<and>
   \<not> isMember acme (account_id bob) \<and> org_owner acme \<noteq> account_id bob \<and>
   requireAuth bob_ctx = Inr (bob, bob_session, bob_auth) \<and>
   fst (updateOrg server0 ''u'' (\<lambda>n. ''f'') 50 acme bob_ctx store0) = Inl INSUFFICIENT_PERMISSIONS \<and>
   fst (updateOrg unprovisioned_server ''u'' (\<lambda>n. ''f'') 50 acme bob_ctx store0)
     = Inl PROVISIONING_NOT_ALLOWED"
  by (simp add: updateOrg_def requireAuth_def bob_ctx_def store0_def acme_def bob_def
      isMember_def isOwner_def isAdmin_def getMember_def
      unprovisioned_server_def server0_def provisioning0_def)

section \<open>What the updates leave behind\<close>

lemma updateMetaData_fields:
  "updateMetaData uuid now org st = (org', st') \<Longrightarrow>
     org_id org' = org_id org \<and> org_revision org' = uuid \<and> org_updated org' = now"
  by (auto simp: updateMetaData_def Let_def split: prod.splits)

text \<open>An \<^verbatim>\<open>updateOrg\<close> that succeeds returns the organization under the fresh revision,
  and has saved it.\<close>

lemma updateOrg_saved:
  assumes "updateOrg srv uuid fresh now p ctx st = (Inr org', sent, st')"
  shows "org_revision org' = uuid \<and> stored_orgs st' (org_id org') = Some org'"
proof -
  from assms obtain org2 st3 st4 where
    meta: "updateMetaData uuid now org2 st3 = (org', st4)" and saved: "st' = save_org org' st4"
    by (auto simp: updateOrg_def Let_def
        split: sum.splits option.splits if_splits prod.splits)
  from updateMetaData_fields [OF meta] saved show ?thesis
    by (simp add: save_org_def)
qed

text \<open>An \<^verbatim>\<open>updateOrg\<close> on a stored organization can fail with \<open>NOT_FOUND\<close>: Alice, the
  owner, removes Carol, whose account is not stored. The organization is not saved,
  while Alice's account already carries the revision drawn for it.\<close>

lemma updateOrg_removed_member_missing:
  "stored_orgs store_carol (org_id acme) = Some acme_with_carol \<and>
   fst (updateOrg server0 ''u'' (\<lambda>n. ''f'') 50 acme alice_ctx store_carol) = Inl NOT_FOUND \<and>
   stored_orgs (snd (snd (updateOrg server0 ''u'' (\<lambda>n. ''f'') 50 acme alice_ctx store_carol))) ''acme''
     = Some acme_with_carol \<and>
   map_option account_orgs
     (stored_accounts (snd (snd (updateOrg server0 ''u'' (\<lambda>n. ''f'') 50 acme alice_ctx store_carol)))
        ''alice'')
     = Some [\<lparr> orginfo_id = ''acme'', orginfo_name = ''Acme'', orginfo_revision = Some ''u'' \<rparr>]"
  by (simp add: updateOrg_def updateMetaData_def requireAuth_def isOwner_def isAdmin_def
      isMember_def getMember_def getInvite_def save_account_def Let_def
      store_carol_def acme_with_carol_def carol_member_def example_defs)

text \<open>The ad hoc authenticators are initialised by their providers, one call for each
  default type, before an authenticator is picked.\<close>

lemma adHocAuthenticators_calls_exact:
  "adHocAuthenticators srv auth ps types = (Inr ms, calls) \<Longrightarrow>
     calls = map (\<lambda>t. CallInitAuthenticator (''ad_hoc_'' @ auth_email auth @ ''_'' @ t)) types"
proof (induction types arbitrary: ms calls)
  case Nil
  then show ?case by simp
next
  case (Cons type types)
  from Cons.prems obtain a calls1 as calls2 where
    one: "createAdHocAuthenticator srv auth ps type = (Inr a, calls1)"
    and rest: "adHocAuthenticators srv auth ps types = (Inr as, calls2)"
    and calls: "calls = calls1 @ calls2"
    by (auto split: prod.splits sum.splits)
  from one have "calls1 = [CallInitAuthenticator (''ad_hoc_'' @ auth_email auth @ ''_'' @ type)]"
    by (auto simp: createAdHocAuthenticator_def Let_def split: option.splits sum.splits)
  with Cons.IH [OF rest] calls show ?case by simp
qed

end
